theory Spec2Isabelle
  imports Main "HOL-Library.AList" "HOL-Library.Multiset"
begin

section \<open>Python values and exceptions\<close>

text \<open>
  The values \<^verbatim>\<open>json.loads\<close> can produce, and the dictionaries the backend builds from
  them. A dictionary is an association list in insertion order whose keys are strings;
  \<open>map_of\<close> reads it and \<open>AList.update\<close> writes it (an existing key keeps its place, a
  new key goes last, as in a Python \<^verbatim>\<open>dict\<close>). One \<open>char\<close> stands for one character of
  a Python \<^verbatim>\<open>str\<close>. A float is held by a decimal text that denotes it (the literal it was
  decoded from, or \<^verbatim>\<open>NaN\<close>, \<^verbatim>\<open>Infinity\<close>, \<^verbatim>\<open>-Infinity\<close>); only the truth value looks
  inside one.
\<close>

datatype pyval =
    PNone
  | PBool bool
  | PInt int
  | PFloat string
  | PStr string
  | PList "pyval list"
  | PDict "(string \<times> pyval) list"

type_synonym pydict = "(string \<times> pyval) list"

text \<open>
  Exceptions carry the text \<^verbatim>\<open>str(e)\<close> gives. The interpreter's own messages are worded
  as CPython 3.12 words them. \<open>OutsideModel\<close> is not an exception of Python: it is what
  the decoder further down answers on a text it does not model.
\<close>

datatype exn =
    JSONDecodeError string
  | ValueError string
  | RecursionError string
  | TypeError string
  | AttributeError string
  | KeyError string
  | IndexError string
  | APIError string
  | OutsideModel string

fun str_exn :: "exn \<Rightarrow> string" where
  "str_exn (JSONDecodeError m) = m"
| "str_exn (ValueError m) = m"
| "str_exn (RecursionError m) = m"
| "str_exn (TypeError m) = m"
| "str_exn (AttributeError m) = m"
| "str_exn (KeyError m) = m"
| "str_exn (IndexError m) = m"
| "str_exn (APIError m) = m"
| "str_exn (OutsideModel m) = m"

fun type_name :: "pyval \<Rightarrow> string" where
  "type_name PNone = ''NoneType''"
| "type_name (PBool _) = ''bool''"
| "type_name (PInt _) = ''int''"
| "type_name (PFloat _) = ''float''"
| "type_name (PStr _) = ''str''"
| "type_name (PList _) = ''list''"
| "type_name (PDict _) = ''dict''"

text \<open>\<^verbatim>\<open>k in d\<close> and \<^verbatim>\<open>d[k]\<close> on a dictionary.\<close>

definition contains_key :: "string \<Rightarrow> pydict \<Rightarrow> bool" where
  "contains_key k d = (map_of d k \<noteq> None)"

definition dict_getitem :: "pydict \<Rightarrow> string \<Rightarrow> exn + pyval" where
  "dict_getitem d k =
     (case map_of d k of
        None \<Rightarrow> Inl (KeyError ([CHR 0x27] @ k @ [CHR 0x27]))
      | Some v \<Rightarrow> Inr v)"

text \<open>\<^verbatim>\<open>len(v)\<close>: defined on strings, lists and dictionaries, a TypeError elsewhere.\<close>

fun py_len :: "pyval \<Rightarrow> exn + nat" where
  "py_len (PStr s) = Inr (length s)"
| "py_len (PList xs) = Inr (length xs)"
| "py_len (PDict d) = Inr (length (remdups (map fst d)))"
| "py_len v = Inl (TypeError (''object of type '' @ [CHR 0x27] @ type_name v @ [CHR 0x27] @ '' has no len()''))"

section \<open>String primitives\<close>

text \<open>
  \<^verbatim>\<open>s.find(c)\<close> and \<^verbatim>\<open>s.rfind(c)\<close> for a one-character needle: the index of the first
  (last) occurrence, or \<open>-1\<close>.
\<close>

fun str_find :: "char \<Rightarrow> string \<Rightarrow> int" where
  "str_find c [] = -1"
| "str_find c (x # xs) =
     (if x = c then 0
      else (let r = str_find c xs in if r = -1 then -1 else r + 1))"

fun str_rfind :: "char \<Rightarrow> string \<Rightarrow> int" where
  "str_rfind c [] = -1"
| "str_rfind c (x # xs) =
     (let r = str_rfind c xs
      in if r \<noteq> -1 then r + 1 else if x = c then 0 else -1)"

text \<open>
  \<^verbatim>\<open>s[i:j]\<close>: a negative bound counts from the end, and both bounds are clamped to
  the string.
\<close>

definition py_slice :: "'a list \<Rightarrow> int \<Rightarrow> int \<Rightarrow> 'a list" where
  "py_slice s i j =
     (let n = int (length s);
          lo = (if i < 0 then max (i + n) 0 else min i n);
          hi = (if j < 0 then max (j + n) 0 else min j n)
      in drop (nat lo) (take (nat hi) s))"

text \<open>
  Decimal digits, and whether the float that a decimal literal denotes is zero. A
  literal is an optional sign, integer digits, an optional fraction and an optional
  exponent, that is an integer \<open>m\<close> times a power \<open>e\<close> of ten. Its nearest double is zero
  when \<open>m\<close> is zero, or when the value is at most half the least positive double, which
  is two to the power \<open>-1074\<close>.
\<close>

definition is_digit :: "char \<Rightarrow> bool" where
  "is_digit c = (48 \<le> (of_char c :: nat) \<and> (of_char c :: nat) \<le> 57)"

definition digits_value :: "string \<Rightarrow> nat" where
  "digits_value ds = foldl (\<lambda>a c. 10 * a + (of_char c - 48)) 0 ds"

definition float_is_zero :: "string \<Rightarrow> bool" where
  "float_is_zero lit =
     (let u = (if lit \<noteq> [] \<and> hd lit = CHR ''-'' then tl lit else lit);
          ip = takeWhile is_digit u;
          r1 = drop (length ip) u;
          dotted = (r1 \<noteq> [] \<and> hd r1 = CHR ''.'');
          fp = (if dotted then takeWhile is_digit (tl r1) else []);
          r2 = (if dotted then drop (length fp) (tl r1) else r1);
          ex = (if r2 \<noteq> [] \<and> (hd r2 = CHR ''e'' \<or> hd r2 = CHR ''E'')
                then (let x = tl r2
                      in if x \<noteq> [] \<and> hd x = CHR ''-'' then - int (digits_value (tl x))
                         else if x \<noteq> [] \<and> hd x = CHR ''+'' then int (digits_value (tl x))
                         else int (digits_value x))
                else 0);
          m = digits_value (ip @ fp);
          e = ex - int (length fp)
      in ip \<noteq> [] \<and> (m = 0 \<or> (e < 0 \<and> m * 2 ^ 1075 \<le> 10 ^ nat (- e))))"

section \<open>Sorting with a key that may raise\<close>

text \<open>
  \<^verbatim>\<open>list.sort(key=f)\<close> first computes the key of every element, in order, and an
  exception of \<open>f\<close> leaves the call; then it sorts by the keys, stably. The stable sort
  by a key is \<open>sort_key\<close>.
\<close>

fun decorate :: "('a \<Rightarrow> exn + nat) \<Rightarrow> 'a list \<Rightarrow> exn + (nat \<times> 'a) list" where
  "decorate f [] = Inr []"
| "decorate f (x # xs) =
     (case f x of
        Inl e \<Rightarrow> Inl e
      | Inr k \<Rightarrow> (case decorate f xs of Inl e \<Rightarrow> Inl e | Inr ks \<Rightarrow> Inr ((k, x) # ks)))"

definition list_sort :: "('a \<Rightarrow> exn + nat) \<Rightarrow> 'a list \<Rightarrow> exn + 'a list" where
  "list_sort f xs =
     (case decorate f xs of
        Inl e \<Rightarrow> Inl e
      | Inr ks \<Rightarrow> Inr (map snd (sort_key fst ks)))"

section \<open>The response parser (analyzer.py)\<close>

definition priority_order :: "(string \<times> nat) list" where
  "priority_order = [(''HIGH'', 0), (''MEDIUM'', 1), (''LOW'', 2)]"

text \<open>
  The sort key \<^verbatim>\<open>lambda x: priority_order.get(x.get('priority', 'LOW'), 3)\<close>. Only a
  dictionary has \<^verbatim>\<open>get\<close>; a priority that is a list or a dictionary cannot be hashed.
\<close>

fun priority_key :: "pyval \<Rightarrow> exn + nat" where
  "priority_key (PDict x) =
     (case (case map_of x ''priority'' of None \<Rightarrow> PStr ''LOW'' | Some p \<Rightarrow> p) of
        PStr p \<Rightarrow> Inr (case map_of priority_order p of None \<Rightarrow> 3 | Some r \<Rightarrow> r)
      | PList _ \<Rightarrow> Inl (TypeError (''unhashable type: '' @ [CHR 0x27] @ ''list'' @ [CHR 0x27]))
      | PDict _ \<Rightarrow> Inl (TypeError (''unhashable type: '' @ [CHR 0x27] @ ''dict'' @ [CHR 0x27]))
      | _ \<Rightarrow> Inr 3)"
| "priority_key v =
     Inl (AttributeError ([CHR 0x27] @ type_name v @ [CHR 0x27] @ '' object has no attribute ''
        @ [CHR 0x27] @ ''get'' @ [CHR 0x27]))"

text \<open>
  Lines 126 to 140 of \<^verbatim>\<open>_parse_analysis_response\<close>: fill the three required fields, sort
  the suggestions in place, return the dictionary. The text handed to \<^verbatim>\<open>json.loads\<close>
  starts with a brace, so what it returns is a dictionary; were it anything else, every
  path through these lines would end in a TypeError (a membership test on a scalar, an
  item assignment or a string index on a \<^verbatim>\<open>str\<close> or a \<^verbatim>\<open>list\<close>), whose wording is not
  modelled.
\<close>

definition fill_and_sort :: "pyval \<Rightarrow> exn + pydict" where
  "fill_and_sort analysis =
     (case analysis of
        PDict d0 \<Rightarrow>
          (let d1 = (if \<not> contains_key ''suggestions'' d0
                     then AList.update ''suggestions'' (PList []) d0 else d0);
               d2 = (if \<not> contains_key ''summary'' d1
                     then AList.update ''summary'' (PStr ''Analysis completed'') d1 else d1)
           in case (if \<not> contains_key ''total_issues'' d2
                    then (case dict_getitem d2 ''suggestions'' of
                            Inl e \<Rightarrow> Inl e
                          | Inr s \<Rightarrow>
                              (case py_len s of
                                 Inl e \<Rightarrow> Inl e
                               | Inr n \<Rightarrow> Inr (AList.update ''total_issues'' (PInt (int n)) d2)))
                    else Inr d2) of
                Inl e \<Rightarrow> Inl e
              | Inr d3 \<Rightarrow>
                  (case dict_getitem d3 ''suggestions'' of
                     Inl e \<Rightarrow> Inl e
                   | Inr (PList xs) \<Rightarrow>
                       (case list_sort priority_key xs of
                          Inl e \<Rightarrow> Inl e
                        | Inr ys \<Rightarrow> Inr (AList.update ''suggestions'' (PList ys) d3))
                   | Inr v \<Rightarrow>
                       Inl (AttributeError ([CHR 0x27] @ type_name v @ [CHR 0x27]
                          @ '' object has no attribute '' @ [CHR 0x27] @ ''sort'' @ [CHR 0x27]))))
      | _ \<Rightarrow> Inl (TypeError ''analysis is not a dict''))"

definition unexpected_format :: "string \<Rightarrow> pydict" where
  "unexpected_format response_text =
     [(''summary'', PStr ''Analysis completed but response format was unexpected''),
      (''suggestions'', PList []),
      (''total_issues'', PInt 0),
      (''raw_response'', PStr response_text)]"

definition decode_failed :: "string \<Rightarrow> string \<Rightarrow> pydict" where
  "decode_failed msg response_text =
     [(''error'', PBool True),
      (''message'', PStr (''Could not parse analysis response: '' @ msg)),
      (''suggestions'', PList []),
      (''raw_response'', PStr response_text)]"

text \<open>
  \<^verbatim>\<open>_parse_analysis_response\<close>. The decoder \<^verbatim>\<open>json.loads\<close> belongs to Python's library,
  not to this repository: it is the parameter \<open>loads\<close>, which returns the decoded value
  or the exception it raised. The \<^verbatim>\<open>try\<close> block is the inner \<open>case\<close>; the handler
  catches \<^verbatim>\<open>json.JSONDecodeError\<close> and nothing else.
\<close>

definition parse_analysis_response ::
    "(string \<Rightarrow> exn + pyval) \<Rightarrow> string \<Rightarrow> exn + pydict" where
  "parse_analysis_response loads response_text =
     (let json_start = str_find CHR ''{'' response_text;
          json_end = str_rfind CHR ''}'' response_text + 1
      in case (if json_start \<noteq> -1 \<and> json_end > json_start
               then (case loads (py_slice response_text json_start json_end) of
                       Inl e \<Rightarrow> Inl e
                     | Inr analysis \<Rightarrow> fill_and_sort analysis)
               else Inr (unexpected_format response_text)) of
           Inl (JSONDecodeError msg) \<Rightarrow> Inr (decode_failed msg response_text)
         | r \<Rightarrow> r)"

section \<open>The text preview (text\_extractor.py)\<close>

text \<open>
  \<^verbatim>\<open>preview_text\<close>: \<^verbatim>\<open>max_chars\<close> is a Python \<^verbatim>\<open>int\<close>, and \<^verbatim>\<open>text[:max_chars]\<close> is a slice
  from the start of the text.
\<close>

definition preview_text :: "string \<Rightarrow> int \<Rightarrow> string" where
  "preview_text text max_chars =
     (if int (length text) \<le> max_chars then text
      else py_slice text 0 max_chars @ ''...'')"

section \<open>Clock readings and their formats\<close>

text \<open>
  A reading of \<^verbatim>\<open>datetime.now()\<close>, and the three formats the backend prints it in:
  \<^verbatim>\<open>strftime("%Y%m%d_%H%M%S")\<close>, \<^verbatim>\<open>strftime("%Y%m%d%H%M%S")\<close> and \<^verbatim>\<open>isoformat()\<close>. The
  year is printed with four digits (the clock never reads a year before 1000).
\<close>

record datetime =
  year :: nat
  month :: nat
  day :: nat
  hour :: nat
  minute :: nat
  second :: nat
  microsecond :: nat

fun digits :: "nat \<Rightarrow> string" where
  "digits n =
     (if n < 10 then [char_of (48 + n)]
      else digits (n div 10) @ [char_of (48 + n mod 10)])"

definition pad :: "nat \<Rightarrow> nat \<Rightarrow> string" where
  "pad w n = replicate (w - length (digits n)) CHR ''0'' @ digits n"

definition date_digits :: "datetime \<Rightarrow> string" where
  "date_digits t = pad 4 (year t) @ pad 2 (month t) @ pad 2 (day t)"

definition time_digits :: "datetime \<Rightarrow> string" where
  "time_digits t = pad 2 (hour t) @ pad 2 (minute t) @ pad 2 (second t)"

definition strftime_upload :: "datetime \<Rightarrow> string" where
  "strftime_upload t = date_digits t @ ''_'' @ time_digits t"

definition strftime_id :: "datetime \<Rightarrow> string" where
  "strftime_id t = date_digits t @ time_digits t"

definition isoformat :: "datetime \<Rightarrow> string" where
  "isoformat t =
     pad 4 (year t) @ ''-'' @ pad 2 (month t) @ ''-'' @ pad 2 (day t) @ ''T''
       @ pad 2 (hour t) @ '':'' @ pad 2 (minute t) @ '':'' @ pad 2 (second t)
       @ (if microsecond t = 0 then [] else ''.'' @ pad 6 (microsecond t))"

text \<open>Python's \<^verbatim>\<open>str\<close> of an integer.\<close>

definition str_int :: "int \<Rightarrow> string" where
  "str_int i = (if i < 0 then ''-'' @ digits (nat (- i)) else digits (nat i))"

section \<open>The analyzer (analyzer.py)\<close>

text \<open>
  The provider's client is outside the repository: \<^verbatim>\<open>client.messages.create\<close> is the
  parameter \<open>create\<close>, which answers a request with a response or with the exception
  it raised. The server's state holds what the backend keeps or emits: the analysis
  cache, the files under the output folder, the requests sent to the provider and the
  lines printed on the server's console.
\<close>

record request =
  req_model :: string
  req_max_tokens :: int
  req_temperature :: "string option"
  req_prompt :: string

record response =
  content_texts :: "string list"
  input_tokens :: int
  output_tokens :: int

record cache_entry =
  cached_original_text :: string
  cached_analysis :: pydict
  cached_filename :: string
  cached_timestamp :: string

record server =
  analysis_cache :: "(string \<times> cache_entry) list"
  outputs :: "(string \<times> string) list"
  sent :: "request list"
  printed :: "string list"

definition ANTHROPIC_MODEL :: string where
  "ANTHROPIC_MODEL = ''claude-sonnet-4-20250514''"

definition MAX_TOKENS :: int where
  "MAX_TOKENS = 4000"

definition TEMPERATURE :: string where
  "TEMPERATURE = ''0.3''"

definition NL :: string where
  "NL = [CHR 0x0A]"

fun join :: "string \<Rightarrow> string list \<Rightarrow> string" where
  "join sep [] = []"
| "join sep [x] = x"
| "join sep (x # y # ys) = x @ sep @ join sep (y # ys)"

text \<open>\<^verbatim>\<open>response.content[0].text\<close>.\<close>

definition first_text :: "response \<Rightarrow> exn + string" where
  "first_text r =
     (case content_texts r of
        [] \<Rightarrow> Inl (IndexError ''list index out of range'')
      | t # _ \<Rightarrow> Inr t)"

text \<open>
  What an f-string prints for a value: a string as it is, anything else through
  \<^verbatim>\<open>repr\<close>, which is Python's and is the parameter \<open>repr\<close>.
\<close>

definition py_str :: "(pyval \<Rightarrow> string) \<Rightarrow> pyval \<Rightarrow> string" where
  "py_str repr v = (case v of PStr s \<Rightarrow> s | _ \<Rightarrow> repr v)"

text \<open>Python's truth value of a decoded value.\<close>

fun truthy :: "pyval \<Rightarrow> bool" where
  "truthy PNone = False"
| "truthy (PBool b) = b"
| "truthy (PInt i) = (i \<noteq> 0)"
| "truthy (PFloat r) = (\<not> float_is_zero r)"
| "truthy (PStr s) = (s \<noteq> [])"
| "truthy (PList xs) = (xs \<noteq> [])"
| "truthy (PDict d) = (d \<noteq> [])"

definition analysis_prompt_lines :: "string \<Rightarrow> string \<Rightarrow> string list" where
  \<open>analysis_prompt_lines protocol_text fname =
     [''You are an expert laboratory protocol reviewer. Analyze the following laboratory protocol and identify specific improvements.'',
      [],
      (if fname \<noteq> [] then ''Protocol File: '' @ fname else []),
      [],
      ''For each issue you find, provide:'',
      ''1. The category (safety, clarity, completeness, formatting, or best_practices)'',
      ''2. The priority level (HIGH, MEDIUM, or LOW)'',
      ''3. The specific location (step number or section)'',
      ''4. A clear description of the issue'',
      ''5. A specific, actionable suggestion for improvement'',
      [],
      ''Focus on:'',
      ''- **Safety Issues**: Missing warnings, hazard information, PPE requirements'',
      ''- **Clarity Issues**: Ambiguous instructions, unclear measurements, vague timing'',
      ''- **Completeness Issues**: Missing materials, equipment, concentrations, temperatures'',
      ''- **Formatting Issues**: Poor structure, inconsistent numbering, hard to follow'',
      ''- **Best Practices**: Industry standards, optimization opportunities, quality controls'',
      [],
      ''Return your analysis in this exact JSON format:'',
      ''{'',
      ''    "summary": "Brief overview of the protocol and overall assessment",'',
      ''    "overall_score": "A score from 1-10",'',
      ''    "total_issues": "Total number of issues found",'',
      ''    "suggestions": ['',
      ''        {'',
      ''            "category": "safety|clarity|completeness|formatting|best_practices",'',
      ''            "priority": "HIGH|MEDIUM|LOW",'',
      ''            "location": "Step 3" or "Materials section" etc,'',
      ''            "issue": "Clear description of what's wrong",'',
      ''            "suggestion": "Specific recommendation to fix it",'',
      ''            "example": "Optional: How it should look after the fix"'',
      ''        }'',
      ''    ]'',
      ''}'',
      [],
      ''Protocol to analyze:'',
      [],
      protocol_text,
      [],
      ''Provide your analysis in valid JSON format only, with no additional text before or after.'']\<close>

definition create_analysis_prompt :: "string \<Rightarrow> string \<Rightarrow> string" where
  "create_analysis_prompt protocol_text fname = join NL (analysis_prompt_lines protocol_text fname)"

definition analysis_failed :: "exn \<Rightarrow> pydict" where
  "analysis_failed e =
     [(''error'', PBool True),
      (''message'', PStr (''Analysis failed: '' @ str_exn e)),
      (''suggestions'', PList [])]"

text \<open>
  \<^verbatim>\<open>ProtocolAnalyzer.analyze_protocol\<close>: everything after the prompt is inside one
  \<^verbatim>\<open>try\<close> whose handler catches every exception, so the method always returns a
  dictionary.
\<close>

definition analyze_protocol ::
    "(string \<Rightarrow> exn + pyval) \<Rightarrow> (request \<Rightarrow> exn + response) \<Rightarrow> string \<Rightarrow> string \<Rightarrow> server
       \<Rightarrow> pydict \<times> server" where
  "analyze_protocol loads create protocol_text fname srv =
     (let req = \<lparr>req_model = ANTHROPIC_MODEL, req_max_tokens = MAX_TOKENS,
                 req_temperature = Some TEMPERATURE,
                 req_prompt = create_analysis_prompt protocol_text fname\<rparr>;
          srv' = srv\<lparr>sent := sent srv @ [req]\<rparr>
      in case create req of
           Inl e \<Rightarrow> (analysis_failed e, srv')
         | Inr resp \<Rightarrow>
             (case first_text resp of
                Inl e \<Rightarrow> (analysis_failed e, srv')
              | Inr response_text \<Rightarrow>
                  (case parse_analysis_response loads response_text of
                     Inl e \<Rightarrow> (analysis_failed e, srv')
                   | Inr analysis_result \<Rightarrow>
                       (AList.update ''metadata''
                          (PDict [(''filename'', PStr fname),
                                  (''model_used'', PStr ANTHROPIC_MODEL),
                                  (''protocol_length'', PInt (int (length protocol_text))),
                                  (''tokens_used'', PInt (input_tokens resp + output_tokens resp))])
                          analysis_result, srv'))))"

text \<open>\<^verbatim>\<open>s['location']\<close> and \<^verbatim>\<open>s['suggestion']\<close>: a subscript with a string key.\<close>

fun subscript :: "pyval \<Rightarrow> string \<Rightarrow> exn + pyval" where
  "subscript (PDict d) k = dict_getitem d k"
| "subscript (PStr s) k = Inl (TypeError (''string indices must be integers, not '' @ [CHR 0x27] @ ''str'' @ [CHR 0x27]))"
| "subscript (PList xs) k = Inl (TypeError ''list indices must be integers or slices, not str'')"
| "subscript v k = Inl (TypeError ([CHR 0x27] @ type_name v @ [CHR 0x27] @ '' object is not subscriptable''))"

definition suggestion_line :: "(pyval \<Rightarrow> string) \<Rightarrow> pyval \<Rightarrow> exn + string" where
  "suggestion_line repr s =
     (case subscript s ''location'' of
        Inl e \<Rightarrow> Inl e
      | Inr loc \<Rightarrow>
          (case subscript s ''suggestion'' of
             Inl e \<Rightarrow> Inl e
           | Inr sg \<Rightarrow> Inr (''- '' @ py_str repr loc @ '': '' @ py_str repr sg)))"

fun map_exn :: "('a \<Rightarrow> exn + 'b) \<Rightarrow> 'a list \<Rightarrow> exn + 'b list" where
  "map_exn f [] = Inr []"
| "map_exn f (x # xs) =
     (case f x of
        Inl e \<Rightarrow> Inl e
      | Inr y \<Rightarrow> (case map_exn f xs of Inl e \<Rightarrow> Inl e | Inr ys \<Rightarrow> Inr (y # ys)))"

definition improvement_prompt :: "string \<Rightarrow> string \<Rightarrow> string" where
  "improvement_prompt suggestions_text original =
     ''You are a laboratory protocol editor. Please rewrite this protocol incorporating the following improvements:''
       @ NL @ NL @ suggestions_text @ NL @ NL
       @ ''Maintain the original structure and style, but integrate these improvements naturally. Make the protocol clearer and safer while keeping it professional.''
       @ NL @ NL @ ''Original Protocol:'' @ NL @ original @ NL @ NL
       @ ''Provide the improved protocol below:''"

text \<open>
  \<^verbatim>\<open>ProtocolAnalyzer.generate_improved_protocol\<close>. The prompt is built before the
  \<^verbatim>\<open>try\<close>, so a suggestion without a location raises; the call to the provider is
  inside it, and its handler prints the exception and returns the original text.
\<close>

definition generate_improved_protocol ::
    "(pyval \<Rightarrow> string) \<Rightarrow> (request \<Rightarrow> exn + response) \<Rightarrow> string \<Rightarrow> pyval list \<Rightarrow> server
       \<Rightarrow> (exn + string) \<times> server" where
  "generate_improved_protocol repr create original accepted_suggestions srv =
     (if accepted_suggestions = [] then (Inr original, srv)
      else (case map_exn (suggestion_line repr) accepted_suggestions of
              Inl e \<Rightarrow> (Inl e, srv)
            | Inr lines \<Rightarrow>
                (let req = \<lparr>req_model = ANTHROPIC_MODEL, req_max_tokens = MAX_TOKENS,
                           req_temperature = Some ''0.3'',
                           req_prompt = improvement_prompt (join NL lines) original\<rparr>;
                     srv' = srv\<lparr>sent := sent srv @ [req]\<rparr>
                 in case (case create req of Inl e \<Rightarrow> Inl e | Inr resp \<Rightarrow> first_text resp) of
                      Inr improved_text \<Rightarrow> (Inr improved_text, srv')
                    | Inl e \<Rightarrow>
                        (Inr original,
                         srv'\<lparr>printed := printed srv'
                                 @ [''Error generating improved protocol: '' @ str_exn e]\<rparr>))))"

text \<open>\<^verbatim>\<open>ProtocolAnalyzer.quick_check\<close>: the liveness check, which answers with a boolean.\<close>

definition quick_check :: "(request \<Rightarrow> exn + response) \<Rightarrow> server \<Rightarrow> bool \<times> server" where
  "quick_check create srv =
     (let req = \<lparr>req_model = ANTHROPIC_MODEL, req_max_tokens = 50, req_temperature = None,
                 req_prompt = ''Respond with '' @ [CHR 0x27] @ ''OK'' @ [CHR 0x27] @ '' if you can read this.''\<rparr>;
          srv' = srv\<lparr>sent := sent srv @ [req]\<rparr>
      in case create req of
           Inr resp \<Rightarrow> (True, srv')
         | Inl e \<Rightarrow> (False, srv'\<lparr>printed := printed srv' @ [''API connection failed: '' @ str_exn e]\<rparr>))"

section \<open>The endpoints (main.py)\<close>

text \<open>
  An endpoint answers with a dictionary, raises an \<^verbatim>\<open>HTTPException\<close> (status code and
  detail), or lets another exception escape.
\<close>

datatype failure = HTTPException nat pyval | Unhandled exn

subsection \<open>Analyze\<close>

text \<open>Lines 94 and 95 of \<^verbatim>\<open>upload_protocol\<close>: the name the upload is stored under.\<close>

definition safe_filename :: "datetime \<Rightarrow> string \<Rightarrow> string" where
  "safe_filename now fname = strftime_upload now @ ''_'' @ fname"

text \<open>
  The analyze endpoint from line 156 on, that is once \<^verbatim>\<open>upload_protocol\<close> has stored the
  file as \<open>upload_filename\<close> and the extractor has returned \<open>text\<close>. The clock is read
  once for the identifier (line 169) and once more for the entry (line 176).
\<close>

definition analyze_protocol_endpoint ::
    "(string \<Rightarrow> exn + pyval) \<Rightarrow> (request \<Rightarrow> exn + response) \<Rightarrow> datetime \<Rightarrow> datetime
       \<Rightarrow> string \<Rightarrow> string \<Rightarrow> string \<Rightarrow> server \<Rightarrow> (failure + pydict) \<times> server" where
  "analyze_protocol_endpoint loads create id_now entry_now upload_filename original_filename text srv =
     (case analyze_protocol loads create text original_filename srv of
        (analysis_result, srv1) \<Rightarrow>
          if (case map_of analysis_result ''error'' of None \<Rightarrow> False | Some v \<Rightarrow> truthy v)
          then (Inl (HTTPException 500
                       (case map_of analysis_result ''message'' of
                          None \<Rightarrow> PStr ''Analysis failed'' | Some m \<Rightarrow> m)), srv1)
          else (let analysis_id = upload_filename @ ''_'' @ strftime_id id_now;
                    entry = \<lparr>cached_original_text = text, cached_analysis = analysis_result,
                             cached_filename = original_filename,
                             cached_timestamp = isoformat entry_now\<rparr>
                in (Inr [(''success'', PBool True),
                         (''analysis_id'', PStr analysis_id),
                         (''filename'', PStr original_filename),
                         (''summary'', case map_of analysis_result ''summary'' of
                                         None \<Rightarrow> PStr [] | Some v \<Rightarrow> v),
                         (''overall_score'', case map_of analysis_result ''overall_score'' of
                                               None \<Rightarrow> PStr ''N/A'' | Some v \<Rightarrow> v),
                         (''total_issues'', case map_of analysis_result ''total_issues'' of
                                              None \<Rightarrow> PInt 0 | Some v \<Rightarrow> v),
                         (''suggestions'', case map_of analysis_result ''suggestions'' of
                                             None \<Rightarrow> PList [] | Some v \<Rightarrow> v),
                         (''metadata'', case map_of analysis_result ''metadata'' of
                                          None \<Rightarrow> PDict [] | Some v \<Rightarrow> v)],
                    srv1\<lparr>analysis_cache := AList.update analysis_id entry (analysis_cache srv1)\<rparr>)))"

subsection \<open>Improve\<close>

text \<open>
  The request body, read as the interface declares it: \<^verbatim>\<open>analysis_id\<close> a string and
  \<^verbatim>\<open>accepted_indices\<close> a sequence of integers, either of which may be absent.
\<close>

record improve_body =
  body_analysis_id :: "string option"
  body_accepted_indices :: "int list option"

text \<open>\<^verbatim>\<open>v[i]\<close> with an integer: a negative index counts from the end of a list.\<close>

fun item :: "pyval \<Rightarrow> int \<Rightarrow> exn + pyval" where
  "item (PList xs) i =
     (let j = (if i < 0 then i + int (length xs) else i)
      in if j < 0 \<or> int (length xs) \<le> j then Inl (IndexError ''list index out of range'')
         else Inr (xs ! nat j))"
| "item (PStr s) i =
     (let j = (if i < 0 then i + int (length s) else i)
      in if j < 0 \<or> int (length s) \<le> j then Inl (IndexError ''string index out of range'')
         else Inr (PStr [s ! nat j]))"
| "item (PDict d) i = Inl (KeyError (str_int i))"
| "item v i = Inl (TypeError ([CHR 0x27] @ type_name v @ [CHR 0x27] @ '' object is not subscriptable''))"

text \<open>
  Lines 237 to 240, the comprehension
  \<^verbatim>\<open>[all_suggestions[i] for i in accepted_indices if i < len(all_suggestions)]\<close>.
\<close>

fun select_accepted :: "pyval \<Rightarrow> int list \<Rightarrow> exn + pyval list" where
  "select_accepted all_suggestions [] = Inr []"
| "select_accepted all_suggestions (i # rest) =
     (case py_len all_suggestions of
        Inl e \<Rightarrow> Inl e
      | Inr n \<Rightarrow>
          if i < int n
          then (case item all_suggestions i of
                  Inl e \<Rightarrow> Inl e
                | Inr s \<Rightarrow>
                    (case select_accepted all_suggestions rest of
                       Inl e \<Rightarrow> Inl e
                     | Inr acc \<Rightarrow> Inr (s # acc)))
          else select_accepted all_suggestions rest)"

definition nothing_accepted :: "string \<Rightarrow> pydict" where
  "nothing_accepted original =
     [(''success'', PBool True),
      (''improved_protocol'', PStr original),
      (''message'', PStr ''No suggestions accepted, returning original protocol''),
      (''suggestions_applied'', PInt 0)]"

text \<open>
  The improve endpoint. The comprehension stands before the \<^verbatim>\<open>try\<close>, so an exception
  in it escapes; inside the \<^verbatim>\<open>try\<close> every exception becomes a 500. The output folder
  is taken to be writable (\<^verbatim>\<open>config.py\<close> creates it on import).
\<close>

definition generate_improved_protocol_endpoint ::
    "(pyval \<Rightarrow> string) \<Rightarrow> (request \<Rightarrow> exn + response) \<Rightarrow> datetime \<Rightarrow> improve_body \<Rightarrow> server
       \<Rightarrow> (failure + pydict) \<times> server" where
  "generate_improved_protocol_endpoint repr create now body srv =
     (let accepted_indices = (case body_accepted_indices body of None \<Rightarrow> [] | Some l \<Rightarrow> l)
      in case body_analysis_id body of
           None \<Rightarrow> (Inl (HTTPException 400 (PStr ''analysis_id is required'')), srv)
         | Some aid \<Rightarrow>
             if aid = [] then (Inl (HTTPException 400 (PStr ''analysis_id is required'')), srv)
             else (case map_of (analysis_cache srv) aid of
                     None \<Rightarrow>
                       (Inl (HTTPException 404
                          (PStr ''Analysis not found. Please analyze the protocol again.'')), srv)
                   | Some cached \<Rightarrow>
                       (case dict_getitem (cached_analysis cached) ''suggestions'' of
                          Inl e \<Rightarrow> (Inl (Unhandled e), srv)
                        | Inr all_suggestions \<Rightarrow>
                            (case select_accepted all_suggestions accepted_indices of
                               Inl e \<Rightarrow> (Inl (Unhandled e), srv)
                             | Inr accepted_suggestions \<Rightarrow>
                                 if accepted_suggestions = []
                                 then (Inr (nothing_accepted (cached_original_text cached)), srv)
                                 else (case generate_improved_protocol repr create
                                              (cached_original_text cached) accepted_suggestions srv of
                                         (Inl e, srv1) \<Rightarrow>
                                           (Inl (HTTPException 500
                                              (PStr (''Error generating improved protocol: '' @ str_exn e))),
                                            srv1)
                                       | (Inr improved_text, srv1) \<Rightarrow>
                                           (let output_filename =
                                                  ''improved_'' @ cached_filename cached @ ''_''
                                                    @ strftime_upload now @ ''.txt''
                                            in (Inr [(''success'', PBool True),
                                                     (''improved_protocol'', PStr improved_text),
                                                     (''output_filename'', PStr output_filename),
                                                     (''suggestions_applied'',
                                                        PInt (int (length accepted_suggestions))),
                                                     (''message'', PStr ''Protocol improved successfully'')],
                                                srv1\<lparr>outputs :=
                                                  AList.update output_filename improved_text
                                                    (outputs srv1)\<rparr>)))))))"

section \<open>A JSON decoder for the concrete runs\<close>

text \<open>
  The theorems about the parser hold for every decoder. To run the parser on a concrete
  text one is needed: \<open>json_loads\<close> follows \<^verbatim>\<open>json.loads\<close> with CPython's C scanner, its
  messages and its positions. Objects keep the order of their keys, and a repeated key
  keeps its first place and its last value. An integer literal of more than 4300 digits
  raises a ValueError (the interpreter's default limit), and containers nested deeper
  than \<open>recursion_limit\<close> raise a RecursionError (the interpreter's own threshold depends
  on its version and on the frames already on the stack). A \<^verbatim>\<open>\u\<close> escape, whose
  character may lie beyond the eight-bit alphabet, is outside the model. The fuel is
  twice the length of the text; every call consumes a character, so it does not run
  out.
\<close>

definition recursion_limit :: nat where
  "recursion_limit = 1000"

definition int_max_str_digits :: nat where
  "int_max_str_digits = 4300"

definition is_ws :: "char \<Rightarrow> bool" where
  "is_ws c = (c = CHR '' '' \<or> c = CHR 0x09 \<or> c = CHR 0x0A \<or> c = CHR 0x0D)"

definition skip_ws :: "string \<Rightarrow> string" where
  "skip_ws s = dropWhile is_ws s"

text \<open>
  \<^verbatim>\<open>JSONDecodeError(msg, doc, pos)\<close>: the message with the line, the column and the
  index of the position. The index of a rest of the text is what stands before it.
\<close>

definition decode_error :: "string \<Rightarrow> string \<Rightarrow> nat \<Rightarrow> exn" where
  "decode_error msg doc pos =
     JSONDecodeError
       (msg @ '': line '' @ digits (count_list (take pos doc) (CHR 0x0A) + 1)
          @ '' column '' @ digits (nat (int pos - str_rfind (CHR 0x0A) (take pos doc)))
          @ '' (char '' @ digits pos @ '')'')"

definition index_of :: "string \<Rightarrow> string \<Rightarrow> nat" where
  "index_of doc rest = length doc - length rest"

fun unescape :: "char \<Rightarrow> char option" where
  "unescape c =
     (if c = CHR 0x22 then Some (CHR 0x22)
      else if c = CHR 0x5C then Some (CHR 0x5C)
      else if c = CHR ''/'' then Some (CHR ''/'')
      else if c = CHR ''b'' then Some (CHR 0x08)
      else if c = CHR ''f'' then Some (CHR 0x0C)
      else if c = CHR ''n'' then Some (CHR 0x0A)
      else if c = CHR ''r'' then Some (CHR 0x0D)
      else if c = CHR ''t'' then Some (CHR 0x09)
      else None)"

text \<open>
  \<^verbatim>\<open>scanstring\<close>, from the character after the opening quote, which stands at \<open>begin\<close>.
\<close>

fun scanstring :: "string \<Rightarrow> nat \<Rightarrow> string \<Rightarrow> string \<Rightarrow> exn + (string \<times> string)" where
  "scanstring doc begin acc [] =
     Inl (decode_error ''Unterminated string starting at'' doc begin)"
| "scanstring doc begin acc [c] =
     (if c = CHR 0x22 then Inr (rev acc, [])
      else if c \<noteq> CHR 0x5C \<and> (of_char c :: nat) < 32
        then Inl (decode_error ''Invalid control character at'' doc (index_of doc [c]))
      else Inl (decode_error ''Unterminated string starting at'' doc begin))"
| "scanstring doc begin acc (c # e # es) =
     (if c = CHR 0x22 then Inr (rev acc, e # es)
      else if c = CHR 0x5C then
        (if e = CHR ''u'' then Inl (OutsideModel ''a unicode escape'')
         else (case unescape e of
                 None \<Rightarrow>
                   Inl (decode_error (''Invalid '' @ [CHR 0x5C] @ ''escape'') doc
                          (index_of doc (c # e # es)))
               | Some u \<Rightarrow> scanstring doc begin (u # acc) es))
      else if (of_char c :: nat) < 32
        then Inl (decode_error ''Invalid control character at'' doc (index_of doc (c # e # es)))
      else scanstring doc begin (c # acc) (e # es))"

text \<open>
  The number at the head of \<open>s\<close>: a sign, the integer digits (one digit when it is a
  zero), a fraction when a digit follows the point, an exponent when a digit follows
  the \<^verbatim>\<open>e\<close> and its sign. With a fraction or an exponent it is a float.
\<close>

definition scan_number :: "string \<Rightarrow> string \<Rightarrow> exn + (pyval \<times> string)" where
  "scan_number doc s =
     (let neg = (s \<noteq> [] \<and> hd s = CHR ''-'');
          r = (if neg then tl s else s)
      in if r = [] \<or> \<not> is_digit (hd r)
         then Inl (decode_error ''Expecting value'' doc (index_of doc s))
         else (let ip = (if hd r = CHR ''0'' then [hd r] else takeWhile is_digit r);
                   r1 = drop (length ip) r;
                   fp = (if r1 \<noteq> [] \<and> hd r1 = CHR ''.'' \<and> tl r1 \<noteq> [] \<and> is_digit (hd (tl r1))
                         then CHR ''.'' # takeWhile is_digit (tl r1) else []);
                   r2 = drop (length fp) r1;
                   sg = (if r2 \<noteq> [] \<and> (hd r2 = CHR ''e'' \<or> hd r2 = CHR ''E'') \<and> tl r2 \<noteq> []
                            \<and> (hd (tl r2) = CHR ''-'' \<or> hd (tl r2) = CHR ''+'')
                         then [hd (tl r2)] else []);
                   xd = (if r2 \<noteq> [] \<and> (hd r2 = CHR ''e'' \<or> hd r2 = CHR ''E'')
                         then takeWhile is_digit (drop (Suc (length sg)) r2) else []);
                   xp = (if xd = [] then [] else hd r2 # sg @ xd);
                   r3 = drop (length xp) r2
               in if fp \<noteq> [] \<or> xp \<noteq> []
                  then Inr (PFloat ((if neg then ''-'' else []) @ ip @ fp @ xp), r3)
                  else if int_max_str_digits < length ip
                  then Inl (ValueError
                         (''Exceeds the limit (4300 digits) for integer string conversion: value has ''
                            @ digits (length ip)
                            @ '' digits; use sys.set_int_max_str_digits() to increase the limit''))
                  else Inr (PInt (if neg then - int (digits_value ip) else int (digits_value ip)), r3)))"

text \<open>
  \<^verbatim>\<open>scan_once\<close> with the object and the array loops. \<open>d\<close> counts the containers around
  the value.
\<close>

fun scan_once :: "string \<Rightarrow> nat \<Rightarrow> nat \<Rightarrow> string \<Rightarrow> exn + (pyval \<times> string)"
  and parse_array :: "string \<Rightarrow> nat \<Rightarrow> nat \<Rightarrow> pyval list \<Rightarrow> string \<Rightarrow> exn + (pyval list \<times> string)"
  and parse_object :: "string \<Rightarrow> nat \<Rightarrow> nat \<Rightarrow> pydict \<Rightarrow> string \<Rightarrow> exn + (pydict \<times> string)" where
  "scan_once doc 0 d s = Inl (OutsideModel ''out of fuel'')"
| "scan_once doc (Suc n) d s =
     (case s of
        [] \<Rightarrow> Inl (decode_error ''Expecting value'' doc (index_of doc s))
      | c # cs \<Rightarrow>
          if c = CHR 0x22 then
            (case scanstring doc (index_of doc s) [] cs of
               Inl e \<Rightarrow> Inl e
             | Inr (str, r) \<Rightarrow> Inr (PStr str, r))
          else if c = CHR ''{'' then
            (if recursion_limit \<le> d
             then Inl (RecursionError
                    ''maximum recursion depth exceeded while decoding a JSON object from a unicode string'')
             else (let r0 = skip_ws cs
                   in if r0 \<noteq> [] \<and> hd r0 = CHR ''}'' then Inr (PDict [], tl r0)
                      else (case parse_object doc n (Suc d) [] r0 of
                              Inl e \<Rightarrow> Inl e
                            | Inr (m, r) \<Rightarrow> Inr (PDict m, r))))
          else if c = CHR ''['' then
            (if recursion_limit \<le> d
             then Inl (RecursionError
                    ''maximum recursion depth exceeded while decoding a JSON array from a unicode string'')
             else (let r0 = skip_ws cs
                   in if r0 \<noteq> [] \<and> hd r0 = CHR '']'' then Inr (PList [], tl r0)
                      else (case parse_array doc n (Suc d) [] r0 of
                              Inl e \<Rightarrow> Inl e
                            | Inr (vs, r) \<Rightarrow> Inr (PList vs, r))))
          else if take 4 s = ''null'' then Inr (PNone, drop 4 s)
          else if take 4 s = ''true'' then Inr (PBool True, drop 4 s)
          else if take 5 s = ''false'' then Inr (PBool False, drop 5 s)
          else if take 3 s = ''NaN'' then Inr (PFloat ''NaN'', drop 3 s)
          else if take 8 s = ''Infinity'' then Inr (PFloat ''Infinity'', drop 8 s)
          else if take 9 s = ''-Infinity'' then Inr (PFloat ''-Infinity'', drop 9 s)
          else scan_number doc s)"
| "parse_array doc 0 d acc s = Inl (OutsideModel ''out of fuel'')"
| "parse_array doc (Suc n) d acc s =
     (case scan_once doc n d s of
        Inl e \<Rightarrow> Inl e
      | Inr (v, r) \<Rightarrow>
          (case skip_ws r of
             [] \<Rightarrow>
               Inl (decode_error (''Expecting '' @ [CHR 0x27] @ '','' @ [CHR 0x27] @ '' delimiter'')
                      doc (length doc))
           | x # xs \<Rightarrow>
               if x = CHR '']'' then Inr (acc @ [v], xs)
               else if x = CHR '','' then parse_array doc n d (acc @ [v]) (skip_ws xs)
               else Inl (decode_error
                           (''Expecting '' @ [CHR 0x27] @ '','' @ [CHR 0x27] @ '' delimiter'')
                           doc (index_of doc (x # xs)))))"
| "parse_object doc 0 d acc s = Inl (OutsideModel ''out of fuel'')"
| "parse_object doc (Suc n) d acc s =
     (case s of
        [] \<Rightarrow>
          Inl (decode_error ''Expecting property name enclosed in double quotes'' doc (length doc))
      | q # qs \<Rightarrow>
          if q \<noteq> CHR 0x22
          then Inl (decode_error ''Expecting property name enclosed in double quotes'' doc
                      (index_of doc s))
          else (case scanstring doc (index_of doc s) [] qs of
                  Inl e \<Rightarrow> Inl e
                | Inr (k, r) \<Rightarrow>
                    (case skip_ws r of
                       [] \<Rightarrow>
                         Inl (decode_error
                                (''Expecting '' @ [CHR 0x27] @ '':'' @ [CHR 0x27] @ '' delimiter'')
                                doc (length doc))
                     | col # r2 \<Rightarrow>
                         if col \<noteq> CHR '':''
                         then Inl (decode_error
                                     (''Expecting '' @ [CHR 0x27] @ '':'' @ [CHR 0x27] @ '' delimiter'')
                                     doc (index_of doc (col # r2)))
                         else (case scan_once doc n d (skip_ws r2) of
                                 Inl e \<Rightarrow> Inl e
                               | Inr (v, r3) \<Rightarrow>
                                   (case skip_ws r3 of
                                      [] \<Rightarrow>
                                        Inl (decode_error
                                               (''Expecting '' @ [CHR 0x27] @ '','' @ [CHR 0x27]
                                                  @ '' delimiter'')
                                               doc (length doc))
                                    | x # xs \<Rightarrow>
                                        if x = CHR ''}'' then Inr (AList.update k v acc, xs)
                                        else if x = CHR '','' then
                                          parse_object doc n d (AList.update k v acc) (skip_ws xs)
                                        else Inl (decode_error
                                                    (''Expecting '' @ [CHR 0x27] @ '','' @ [CHR 0x27]
                                                       @ '' delimiter'')
                                                    doc (index_of doc (x # xs))))))))"

text \<open>
  \<^verbatim>\<open>json.loads\<close>: white space, one value, white space, and nothing more.
\<close>

definition json_loads :: "string \<Rightarrow> exn + pyval" where
  "json_loads s =
     (case scan_once s (2 * length s + 2) 0 (skip_ws s) of
        Inl e \<Rightarrow> Inl e
      | Inr (v, r) \<Rightarrow>
          if skip_ws r = [] then Inr v
          else Inl (decode_error ''Extra data'' s (index_of s (skip_ws r))))"

section \<open>The notions the claims are stated with\<close>

text \<open>
  A decodable span: some opening brace stands before some later closing brace.
\<close>

definition span_exists :: "string \<Rightarrow> bool" where
  "span_exists s = (\<exists>i j. i < j \<and> j < length s \<and> s ! i = CHR ''{'' \<and> s ! j = CHR ''}'')"

text \<open>
  A suggestion the sort key accepts is an object whose priority, when it has one, is
  not a list or an object. A decoded object is well shaped when its suggestions, if
  present, are a list of such objects.
\<close>

fun sortable :: "pyval \<Rightarrow> bool" where
  "sortable (PDict x) =
     (case map_of x ''priority'' of
        Some (PList _) \<Rightarrow> False
      | Some (PDict _) \<Rightarrow> False
      | _ \<Rightarrow> True)"
| "sortable _ = False"

definition well_shaped :: "pydict \<Rightarrow> bool" where
  "well_shaped d =
     (case map_of d ''suggestions'' of
        None \<Rightarrow> True
      | Some (PList xs) \<Rightarrow> list_all sortable xs
      | Some _ \<Rightarrow> False)"

definition suggestions_of :: "pydict \<Rightarrow> pyval list" where
  "suggestions_of d = (case map_of d ''suggestions'' of Some (PList xs) \<Rightarrow> xs | _ \<Rightarrow> [])"

text \<open>
  Two priority ranks. \<open>claimed_rank\<close> follows the specification's words: HIGH 0,
  MEDIUM 1, LOW 2, anything else and a missing priority 3. \<open>rank\<close> is the rank of the
  source's key, where a missing priority counts as LOW.
\<close>

fun claimed_rank :: "pyval \<Rightarrow> nat" where
  "claimed_rank (PDict x) =
     (case map_of x ''priority'' of
        Some (PStr p) \<Rightarrow>
          (if p = ''HIGH'' then 0 else if p = ''MEDIUM'' then 1 else if p = ''LOW'' then 2 else 3)
      | _ \<Rightarrow> 3)"
| "claimed_rank _ = 3"

fun rank :: "pyval \<Rightarrow> nat" where
  "rank (PDict x) =
     (case map_of x ''priority'' of
        None \<Rightarrow> 2
      | Some (PStr p) \<Rightarrow>
          (if p = ''HIGH'' then 0 else if p = ''MEDIUM'' then 1 else if p = ''LOW'' then 2 else 3)
      | Some _ \<Rightarrow> 3)"
| "rank _ = 3"

text \<open>
  What the returned dictionary is expected to hold under each key, given the decoded
  object \<open>d\<close>: the sorted suggestions, the summary and the issue count of \<open>d\<close> or their
  defaults, and every other field of \<open>d\<close> as it is.
\<close>

definition expected_fields :: "pydict \<Rightarrow> string \<Rightarrow> pyval option" where
  "expected_fields d k =
     (if k = ''suggestions'' then Some (PList (sort_key rank (suggestions_of d)))
      else if k = ''summary'' then
        Some (case map_of d ''summary'' of None \<Rightarrow> PStr ''Analysis completed'' | Some v \<Rightarrow> v)
      else if k = ''total_issues'' then
        Some (case map_of d ''total_issues'' of
                None \<Rightarrow> PInt (int (length (suggestions_of d))) | Some v \<Rightarrow> v)
      else map_of d k)"

text \<open>
  \<open>ys\<close> is \<open>xs\<close> sorted by \<open>f\<close>, stably: the ranks do not decrease along \<open>ys\<close>, and the
  elements of each rank stand in \<open>ys\<close> as they stood in \<open>xs\<close>.
\<close>

definition stable_sorted_by :: "('a \<Rightarrow> nat) \<Rightarrow> 'a list \<Rightarrow> 'a list \<Rightarrow> bool" where
  "stable_sorted_by f xs ys =
     (sorted (map f ys) \<and> (\<forall>k. filter (\<lambda>x. f x = k) ys = filter (\<lambda>x. f x = k) xs))"

section \<open>Concrete inputs\<close>

definition reply_unranked :: string where
  \<open>reply_unranked = ''{"suggestions": [{"priority": "URGENT"}, {}]}''\<close>

definition mixed_json :: string where
  \<open>mixed_json = ''{"overall_score": "7", "suggestions": [{"priority": "LOW", "category": "style"}, {"priority": "HIGH"}, {}, {"priority": "MEDIUM"}, {"priority": "HIGH", "location": "Step 2"}]}''\<close>

definition reply_mixed :: string where
  "reply_mixed = ''Here is the review: '' @ mixed_json @ '' Done.''"

definition mixed_object :: pydict where
  "mixed_object =
     [(''overall_score'', PStr ''7''),
      (''suggestions'',
       PList [PDict [(''priority'', PStr ''LOW''), (''category'', PStr ''style'')],
              PDict [(''priority'', PStr ''HIGH'')],
              PDict [],
              PDict [(''priority'', PStr ''MEDIUM'')],
              PDict [(''priority'', PStr ''HIGH''), (''location'', PStr ''Step 2'')]])]"

definition reply_number :: string where
  \<open>reply_number = ''{"suggestions": 5}''\<close>

definition reply_word :: string where
  \<open>reply_word = ''{"total_issues": 1, "suggestions": "none"}''\<close>

definition reply_scalars :: string where
  \<open>reply_scalars = ''{"suggestions": [1, 2]}''\<close>

definition summary_json :: string where
  \<open>summary_json = ''{"summary": "ok"}''\<close>

definition demo_suggestions :: "pyval list" where
  "demo_suggestions =
     [PDict [(''priority'', PStr ''HIGH''), (''location'', PStr ''Step 1''),
             (''suggestion'', PStr ''Wear gloves'')],
      PDict [(''priority'', PStr ''LOW''), (''location'', PStr ''Step 2''),
             (''suggestion'', PStr ''State the volume'')]]"

definition demo_entry :: cache_entry where
  "demo_entry =
     \<lparr>cached_original_text = ''1. Mix. 2. Run.'',
      cached_analysis = [(''summary'', PStr ''ok''), (''suggestions'', PList demo_suggestions),
                         (''total_issues'', PInt 2)],
      cached_filename = ''pcr.pdf'',
      cached_timestamp = ''2025-01-02T03:04:05''\<rparr>"

definition demo_server :: server where
  "demo_server = \<lparr>analysis_cache = [(''a1'', demo_entry)], outputs = [], sent = [], printed = []\<rparr>"

definition empty_server :: server where
  "empty_server = \<lparr>analysis_cache = [], outputs = [], sent = [], printed = []\<rparr>"

definition reading :: "nat \<Rightarrow> datetime" where
  "reading us = \<lparr>year = 2025, month = 1, day = 2, hour = 3, minute = 4, second = 5, microsecond = us\<rparr>"

definition failing_create :: "request \<Rightarrow> exn + response" where
  "failing_create req = Inl (APIError ''Connection error.'')"

definition rewriting_create :: "request \<Rightarrow> exn + response" where
  "rewriting_create req =
     Inr \<lparr>content_texts = [''1. Mix with gloves. 2. Run.''], input_tokens = 10, output_tokens = 5\<rparr>"

definition review_json :: string where
  \<open>review_json = ''{"summary": "ok", "suggestions": []}''\<close>

definition reviewing_create :: "request \<Rightarrow> exn + response" where
  "reviewing_create req =
     Inr \<lparr>content_texts = [review_json], input_tokens = 10, output_tokens = 5\<rparr>"

definition no_repr :: "pyval \<Rightarrow> string" where
  "no_repr v = []"

definition improve_with :: "(request \<Rightarrow> exn + response) \<Rightarrow> int list \<Rightarrow> (failure + pydict) \<times> server" where
  "improve_with create indices =
     generate_improved_protocol_endpoint no_repr create (reading 0)
       \<lparr>body_analysis_id = Some ''a1'', body_accepted_indices = Some indices\<rparr> demo_server"

definition first_analysis :: "(failure + pydict) \<times> server" where
  "first_analysis =
     analyze_protocol_endpoint json_loads reviewing_create (reading 100000) (reading 100001)
       (safe_filename (reading 0) ''pcr.pdf'') ''pcr.pdf'' ''1. Mix.'' empty_server"

definition second_analysis :: "(failure + pydict) \<times> server" where
  "second_analysis =
     analyze_protocol_endpoint json_loads reviewing_create (reading 900000) (reading 900001)
       (safe_filename (reading 500000) ''pcr.pdf'') ''pcr.pdf'' ''1. Stir.'' (snd first_analysis)"

definition long_integer_json :: string where
  \<open>long_integer_json = ''{"total_issues": '' @ replicate 4301 (CHR ''1'') @ ''}''\<close>

section \<open>Finding the span\<close>

lemma str_find_notin: "c \<notin> set s \<Longrightarrow> str_find c s = -1"
  by (induction s) auto

lemma str_find_first: "c \<notin> set xs \<Longrightarrow> str_find c (xs @ c # ys) = int (length xs)"
  by (induction xs) (auto simp: Let_def)

lemma str_rfind_notin: "c \<notin> set s \<Longrightarrow> str_rfind c s = -1"
  by (induction s) auto

lemma str_rfind_last: "c \<notin> set ys \<Longrightarrow> str_rfind c (xs @ c # ys) = int (length xs)"
  by (induction xs) (auto simp: Let_def str_rfind_notin)

lemma str_find_in: "c \<in> set s \<Longrightarrow> str_find c s \<noteq> -1"
  using split_list_first[of c s] by (auto simp: str_find_first)

lemma str_rfind_in: "c \<in> set s \<Longrightarrow> str_rfind c s \<noteq> -1"
  using split_list_last[of c s] by (auto simp: str_rfind_last)

lemma span_exists_iff:
  "span_exists s \<longleftrightarrow>
     (str_find CHR ''{'' s \<noteq> -1 \<and> str_rfind CHR ''}'' s + 1 > str_find CHR ''{'' s)"
proof
  assume "span_exists s"
  then obtain i j where ij: "i < j" "j < length s" "s ! i = CHR ''{''" "s ! j = CHR ''}''"
    unfolding span_exists_def by blast
  from ij have "CHR ''{'' \<in> set s" by (metis nth_mem order.strict_trans)
  then obtain xs ys where s1: "s = xs @ CHR ''{'' # ys" "CHR ''{'' \<notin> set xs"
    by (meson split_list_first)
  from ij have "CHR ''}'' \<in> set s" by (metis nth_mem)
  then obtain us vs where s2: "s = us @ CHR ''}'' # vs" "CHR ''}'' \<notin> set vs"
    by (meson split_list_last)
  have a: "length xs \<le> i"
  proof (rule ccontr)
    assume "\<not> length xs \<le> i"
    then have "i < length xs" by simp
    then have "s ! i \<in> set xs" using s1(1) by (simp add: nth_append)
    with ij(3) s1(2) show False by simp
  qed
  have b: "j \<le> length us"
  proof (rule ccontr)
    assume "\<not> j \<le> length us"
    then have gt: "length us < j" by simp
    then have "s ! j = vs ! (j - length us - 1)"
      using s2(1) by (simp add: nth_append nth_Cons')
    moreover have "j - length us - 1 < length vs" using gt ij(2) s2(1) by simp
    ultimately have "s ! j \<in> set vs" by (metis nth_mem)
    with ij(4) s2(2) show False by simp
  qed
  have "str_find CHR ''{'' s = int (length xs)" using s1 by (simp add: str_find_first)
  moreover have "str_rfind CHR ''}'' s = int (length us)"
    using s2 str_rfind_last[of "CHR ''}''" vs us] by simp
  ultimately show "str_find CHR ''{'' s \<noteq> -1 \<and> str_rfind CHR ''}'' s + 1 > str_find CHR ''{'' s"
    using a b ij(1) by simp
next
  assume h: "str_find CHR ''{'' s \<noteq> -1 \<and> str_rfind CHR ''}'' s + 1 > str_find CHR ''{'' s"
  then have "CHR ''{'' \<in> set s" using str_find_notin by blast
  then obtain xs ys where s1: "s = xs @ CHR ''{'' # ys" "CHR ''{'' \<notin> set xs"
    by (meson split_list_first)
  have f: "str_find CHR ''{'' s = int (length xs)" using s1 by (simp add: str_find_first)
  with h have "str_rfind CHR ''}'' s \<noteq> -1" by linarith
  then have "CHR ''}'' \<in> set s" using str_rfind_notin by blast
  then obtain us vs where s2: "s = us @ CHR ''}'' # vs" "CHR ''}'' \<notin> set vs"
    by (meson split_list_last)
  have r: "str_rfind CHR ''}'' s = int (length us)"
    using s2 str_rfind_last[of "CHR ''}''" vs us] by simp
  have le: "length xs \<le> length us" using h f r by simp
  have x: "s ! length xs = CHR ''{''" using s1(1) by simp
  have u: "s ! length us = CHR ''}''" using s2(1) by simp
  have "length xs \<noteq> length us" using x u by auto
  with le have "length xs < length us" by simp
  moreover have "length us < length s" using s2(1) by simp
  ultimately show "span_exists s" unfolding span_exists_def using x u by blast
qed

lemma parse_unfold:
  "parse_analysis_response loads t =
     (case (if span_exists t
            then (case loads (py_slice t (str_find CHR ''{'' t) (str_rfind CHR ''}'' t + 1)) of
                    Inl e \<Rightarrow> Inl e
                  | Inr analysis \<Rightarrow> fill_and_sort analysis)
            else Inr (unexpected_format t)) of
        Inl (JSONDecodeError msg) \<Rightarrow> Inr (decode_failed msg t)
      | r \<Rightarrow> r)"
  unfolding parse_analysis_response_def Let_def span_exists_iff by (rule refl)

lemma parse_no_span:
  assumes "\<not> span_exists t"
  shows "parse_analysis_response loads t = Inr (unexpected_format t)"
  using assms by (simp add: parse_unfold)

lemma parse_decode_error:
  assumes "span_exists t"
    and "loads (py_slice t (str_find CHR ''{'' t) (str_rfind CHR ''}'' t + 1)) = Inl (JSONDecodeError m)"
  shows "parse_analysis_response loads t = Inr (decode_failed m t)"
  using assms by (simp add: parse_unfold)

lemma span_embedded:
  assumes "CHR ''{'' \<notin> set pre" "CHR ''}'' \<notin> set post" "js \<noteq> []" "hd js = CHR ''{''" "last js = CHR ''}''"
  shows "str_find CHR ''{'' (pre @ js @ post) = int (length pre)"
    and "str_rfind CHR ''}'' (pre @ js @ post) + 1 = int (length pre + length js)"
    and "py_slice (pre @ js @ post) (int (length pre)) (int (length pre + length js)) = js"
proof -
  from assms obtain body where js1: "js = CHR ''{'' # body" by (cases js) auto
  show "str_find CHR ''{'' (pre @ js @ post) = int (length pre)"
    using assms(1) js1 str_find_first[of "CHR ''{''" pre "body @ post"] by simp
  have js2: "butlast js @ [CHR ''}''] = js" using assms(3,5) by (metis append_butlast_last_id)
  have e: "(pre @ butlast js) @ CHR ''}'' # post = pre @ js @ post"
    using js2 by (metis append.assoc append_Cons append_Nil)
  have "str_rfind CHR ''}'' ((pre @ butlast js) @ CHR ''}'' # post) = int (length (pre @ butlast js))"
    by (rule str_rfind_last[OF assms(2)])
  then have "str_rfind CHR ''}'' (pre @ js @ post) = int (length (pre @ butlast js))"
    by (simp only: e)
  then show "str_rfind CHR ''}'' (pre @ js @ post) + 1 = int (length pre + length js)"
    using assms(3) by (simp add: Suc_leI)
  show "py_slice (pre @ js @ post) (int (length pre)) (int (length pre + length js)) = js"
    by (simp add: py_slice_def Let_def)
qed

lemma span_exists_embedded:
  assumes "js \<noteq> []" "hd js = CHR ''{''" "last js = CHR ''}''"
  shows "span_exists (pre @ js @ post)"
proof -
  have n: "0 < length js" using assms(1) by simp
  have a: "(pre @ js @ post) ! length pre = CHR ''{''"
    using assms(1,2) by (simp add: nth_append hd_conv_nth)
  have b: "(pre @ js @ post) ! (length pre + (length js - 1)) = CHR ''}''"
    using assms(1,3) n by (simp add: nth_append last_conv_nth)
  have "length js \<noteq> 1"
  proof
    assume "length js = 1"
    then obtain c where "js = [c]" by (cases js) auto
    with assms(2,3) show False by simp
  qed
  with n have "1 < length js" by linarith
  then have "length pre < length pre + (length js - 1)" by simp
  moreover have "length js - 1 < length js" using n by linarith
  then have "length pre + (length js - 1) < length (pre @ js @ post)" by simp
  ultimately show ?thesis unfolding span_exists_def using a b by blast
qed

section \<open>The sort and the field defaults\<close>

lemma priority_key_sortable: "sortable x \<Longrightarrow> priority_key x = Inr (rank x)"
  by (cases x) (auto simp: priority_order_def split: option.splits pyval.splits)

lemma priority_key_unsortable:
  "\<not> sortable x \<Longrightarrow> \<exists>m. priority_key x = Inl (TypeError m) \<or> priority_key x = Inl (AttributeError m)"
  by (cases x) (auto split: option.splits pyval.splits)

lemma decorate_ok:
  "\<forall>x\<in>set xs. f x = Inr (g x) \<Longrightarrow> decorate f xs = Inr (map (\<lambda>x. (g x, x)) xs)"
  by (induction xs) auto

lemma decorate_Inl: "decorate f xs = Inl e \<Longrightarrow> \<exists>x\<in>set xs. f x = Inl e"
  by (induction xs) (auto split: sum.splits)

lemma decorate_Inr: "decorate f xs = Inr ks \<Longrightarrow> \<forall>x\<in>set xs. \<exists>k. f x = Inr k"
  by (induction xs arbitrary: ks) (auto split: sum.splits)

lemma priority_key_errors:
  "priority_key x = Inl e \<Longrightarrow> \<exists>m. e = TypeError m \<or> e = AttributeError m"
  by (cases x) (auto split: option.splits pyval.splits)

lemma insort_key_decorated:
  "insort_key fst (g x, x) (map (\<lambda>x. (g x, x)) ys) = map (\<lambda>x. (g x, x)) (insort_key g x ys)"
  by (induction ys) auto

lemma sort_key_decorated:
  "sort_key fst (map (\<lambda>x. (g x, x)) xs) = map (\<lambda>x. (g x, x)) (sort_key g xs)"
  by (induction xs) (auto simp: insort_key_decorated)

lemma list_sort_ok:
  assumes "\<forall>x\<in>set xs. f x = Inr (g x)"
  shows "list_sort f xs = Inr (sort_key g xs)"
  using decorate_ok[OF assms] by (simp add: list_sort_def sort_key_decorated comp_def)

lemma list_sort_suggestions:
  assumes "list_all sortable xs"
  shows "list_sort priority_key xs = Inr (sort_key rank xs)"
  by (rule list_sort_ok) (use assms in \<open>auto simp: list_all_iff priority_key_sortable\<close>)

lemma list_sort_unsortable:
  assumes "\<not> list_all sortable xs"
  shows "\<exists>m. list_sort priority_key xs = Inl (TypeError m) \<or> list_sort priority_key xs = Inl (AttributeError m)"
proof (cases "decorate priority_key xs")
  case (Inl e)
  then obtain x where "priority_key x = Inl e" using decorate_Inl by blast
  then obtain m where "e = TypeError m \<or> e = AttributeError m" using priority_key_errors by blast
  with Inl show ?thesis by (auto simp: list_sort_def)
next
  case (Inr ks)
  from assms obtain x where x: "x \<in> set xs" "\<not> sortable x" by (auto simp: list_all_iff)
  from decorate_Inr[OF Inr] x(1) obtain k where "priority_key x = Inr k" by blast
  with priority_key_unsortable[OF x(2)] show ?thesis by auto
qed

lemma fill_and_sort_ok:
  assumes "well_shaped d"
  shows "\<exists>r. fill_and_sort (PDict d) = Inr r \<and> map_of r = expected_fields d"
proof (cases "map_of d ''suggestions''")
  case None
  then show ?thesis
    by (auto simp: fill_and_sort_def contains_key_def dict_getitem_def Let_def update_conv'
        suggestions_of_def list_sort_def expected_fields_def fun_eq_iff split: option.splits)
next
  case (Some v)
  with assms obtain xs where v: "v = PList xs" and srt: "list_all sortable xs"
    by (auto simp: well_shaped_def split: pyval.splits)
  show ?thesis
    using Some v list_sort_suggestions[OF srt]
    by (auto simp: fill_and_sort_def contains_key_def dict_getitem_def Let_def update_conv'
        suggestions_of_def expected_fields_def fun_eq_iff split: option.splits)
qed

lemma fill_and_sort_bad:
  assumes "\<not> well_shaped d"
  shows "\<exists>m. fill_and_sort (PDict d) = Inl (TypeError m) \<or> fill_and_sort (PDict d) = Inl (AttributeError m)"
proof -
  from assms obtain v where v: "map_of d ''suggestions'' = Some v"
    by (auto simp: well_shaped_def split: option.splits)
  show ?thesis
  proof (cases v)
    case (PList xs)
    with assms v have "\<not> list_all sortable xs" by (simp add: well_shaped_def)
    from list_sort_unsortable[OF this] show ?thesis
      using v PList
      by (auto simp: fill_and_sort_def contains_key_def dict_getitem_def Let_def update_conv'
          split: option.splits)
  qed (use v in \<open>auto simp: fill_and_sort_def contains_key_def dict_getitem_def Let_def update_conv'
          split: option.splits\<close>)
qed


section \<open>The parser on a decoded object\<close>

text \<open>
  Once the span decodes to an object, the parser returns exactly when the object is
  well shaped, and then the result holds the expected fields; otherwise it raises a
  TypeError or an AttributeError.
\<close>

lemma parse_well_shaped:
  assumes "span_exists t"
    and "loads (py_slice t (str_find CHR ''{'' t) (str_rfind CHR ''}'' t + 1)) = Inr (PDict d)"
    and "well_shaped d"
  shows "\<exists>r. parse_analysis_response loads t = Inr r \<and> map_of r = expected_fields d"
  using fill_and_sort_ok[OF assms(3)] assms(1,2) by (auto simp: parse_unfold)

lemma parse_ill_shaped:
  assumes "span_exists t"
    and "loads (py_slice t (str_find CHR ''{'' t) (str_rfind CHR ''}'' t + 1)) = Inr (PDict d)"
    and "\<not> well_shaped d"
  shows "\<exists>m. parse_analysis_response loads t = Inl (TypeError m)
            \<or> parse_analysis_response loads t = Inl (AttributeError m)"
  using fill_and_sort_bad[OF assms(3)] assms(1,2) by (auto simp: parse_unfold)

lemma parse_returns_iff_well_shaped:
  assumes "span_exists t"
    and "loads (py_slice t (str_find CHR ''{'' t) (str_rfind CHR ''}'' t + 1)) = Inr (PDict d)"
  shows "(\<exists>r. parse_analysis_response loads t = Inr r) \<longleftrightarrow> well_shaped d"
proof
  assume "\<exists>r. parse_analysis_response loads t = Inr r"
  then obtain r where r: "parse_analysis_response loads t = Inr r" by blast
  show "well_shaped d"
  proof (rule ccontr)
    assume "\<not> well_shaped d"
    with parse_ill_shaped[of t loads d] assms
    obtain m where "parse_analysis_response loads t = Inl (TypeError m)
        \<or> parse_analysis_response loads t = Inl (AttributeError m)" by blast
    with r show False by auto
  qed
next
  assume "well_shaped d"
  with parse_well_shaped[of t loads d] assms
  show "\<exists>r. parse_analysis_response loads t = Inr r" by blast
qed

lemma dom_expected_fields:
  "dom (expected_fields d) = dom (map_of d) \<union> {''suggestions'', ''summary'', ''total_issues''}"
  by (auto simp: expected_fields_def dom_def split: if_splits)

lemma keys_of_result:
  assumes "map_of r = expected_fields d"
  shows "fst ` set r = fst ` set d \<union> {''suggestions'', ''summary'', ''total_issues''}"
proof -
  have "fst ` set r = dom (map_of r)" by (simp add: dom_map_of_conv_image_fst)
  also have "\<dots> = dom (map_of d) \<union> {''suggestions'', ''summary'', ''total_issues''}"
    using assms by (simp add: dom_expected_fields)
  also have "dom (map_of d) = fst ` set d" by (simp add: dom_map_of_conv_image_fst)
  finally show ?thesis .
qed

lemma sort_key_stable_sorted: "stable_sorted_by f xs (sort_key f xs)"
  by (simp add: stable_sorted_by_def sort_key_stable)

section \<open>Concrete runs of the decoder\<close>

text \<open>The facts about the concrete texts that several of the theorems below use.\<close>

lemma reply_mixed_span: "span_exists reply_mixed"
  unfolding span_exists_iff by code_simp

lemma reply_mixed_slice:
  "py_slice reply_mixed (str_find CHR ''{'' reply_mixed) (str_rfind CHR ''}'' reply_mixed + 1)
     = mixed_json"
  by code_simp

lemma mixed_json_decodes: "json_loads mixed_json = Inr (PDict mixed_object)"
  by code_simp

lemma reply_mixed_decodes:
  "json_loads (py_slice reply_mixed (str_find CHR ''{'' reply_mixed)
                 (str_rfind CHR ''}'' reply_mixed + 1)) = Inr (PDict mixed_object)"
  by (simp only: reply_mixed_slice mixed_json_decodes)

lemma mixed_object_well_shaped: "well_shaped mixed_object"
  by code_simp

lemma mixed_object_suggestions:
  "map_of mixed_object ''suggestions'' = Some (PList (suggestions_of mixed_object))"
  "list_all sortable (suggestions_of mixed_object)"
  "length (suggestions_of mixed_object) = 5"
  by (simp_all add: mixed_object_def suggestions_of_def)

lemma mixed_object_fields:
  "map_of mixed_object ''overall_score'' = Some (PStr ''7'')"
  "map_of mixed_object ''summary'' = None"
  "map_of mixed_object ''total_issues'' = None"
  "map_of mixed_object ''error'' = None"
  "fst ` set mixed_object = {''overall_score'', ''suggestions''}"
  by (simp_all add: mixed_object_def)

section \<open>The endpoints on every input\<close>

text \<open>
  Without a negative index the comprehension keeps exactly the indices below the
  length; when none is kept the endpoint answers with the original text and leaves
  the server as it was. A failing provider is reported by Analyze and by the liveness
  check, and hidden by Improve. The identifier of an analysis depends on the clock
  only up to the second.
\<close>

lemma select_accepted_nonneg:
  "\<forall>i\<in>set indices. 0 \<le> i \<Longrightarrow>
     select_accepted (PList xs) indices
       = Inr (map (\<lambda>i. xs ! nat i) (filter (\<lambda>i. i < int (length xs)) indices))"
  by (induction indices) (auto simp: Let_def)

lemma select_accepted_beyond:
  "\<forall>i\<in>set indices. int (length xs) \<le> i \<Longrightarrow> select_accepted (PList xs) indices = Inr []"
  by (induction indices) auto

lemma improve_nothing_accepted:
  assumes "body_analysis_id body = Some aid" and "aid \<noteq> []"
    and "map_of (analysis_cache srv) aid = Some cached"
    and "map_of (cached_analysis cached) ''suggestions'' = Some (PList xs)"
    and "\<forall>i\<in>set (case body_accepted_indices body of None \<Rightarrow> [] | Some l \<Rightarrow> l). int (length xs) \<le> i"
  shows "generate_improved_protocol_endpoint repr create now body srv
           = (Inr (nothing_accepted (cached_original_text cached)), srv)"
  using assms select_accepted_beyond[OF assms(5)]
  by (simp add: generate_improved_protocol_endpoint_def dict_getitem_def Let_def)

lemma generate_improved_protocol_on_failure:
  assumes "accepted \<noteq> []" and "map_exn (suggestion_line repr) accepted = Inr lines"
    and "\<forall>req. \<exists>e. create req = Inl e"
  shows "fst (generate_improved_protocol repr create original accepted srv) = Inr original"
proof -
  let ?req = "\<lparr>req_model = ANTHROPIC_MODEL, req_max_tokens = MAX_TOKENS,
                 req_temperature = Some ''0.3'',
                 req_prompt = improvement_prompt (join NL lines) original\<rparr>"
  from assms(3) obtain e where "create ?req = Inl e" by blast
  with assms(1,2) show ?thesis
    by (simp add: generate_improved_protocol_def Let_def)
qed

lemma improve_swallows_model_failure:
  assumes "body_analysis_id body = Some aid" and "aid \<noteq> []"
    and "map_of (analysis_cache srv) aid = Some cached"
    and "map_of (cached_analysis cached) ''suggestions'' = Some all_suggestions"
    and "select_accepted all_suggestions
           (case body_accepted_indices body of None \<Rightarrow> [] | Some l \<Rightarrow> l) = Inr accepted"
    and "accepted \<noteq> []" and "map_exn (suggestion_line repr) accepted = Inr lines"
    and "\<forall>req. \<exists>e. create req = Inl e"
  shows "\<exists>r. fst (generate_improved_protocol_endpoint repr create now body srv) = Inr r
           \<and> map_of r ''success'' = Some (PBool True)
           \<and> map_of r ''improved_protocol'' = Some (PStr (cached_original_text cached))
           \<and> map_of r ''suggestions_applied'' = Some (PInt (int (length accepted)))
           \<and> map_of r ''message'' = Some (PStr ''Protocol improved successfully'')"
proof -
  obtain res srv1 where g: "generate_improved_protocol repr create (cached_original_text cached)
      accepted srv = (res, srv1)" by (cases "generate_improved_protocol repr create
      (cached_original_text cached) accepted srv")
  with generate_improved_protocol_on_failure[OF assms(6,7,8), of "cached_original_text cached" srv]
  have "res = Inr (cached_original_text cached)" by simp
  with g assms(1-6) show ?thesis
    by (simp add: generate_improved_protocol_endpoint_def dict_getitem_def Let_def)
qed

lemma analyze_protocol_on_failure:
  assumes "\<forall>req. create req = Inl e"
  shows "fst (analyze_protocol loads create protocol_text fname srv) = analysis_failed e"
  using assms by (simp add: analyze_protocol_def Let_def)

lemma analyze_surfaces_model_failure:
  assumes "\<forall>req. create req = Inl e"
  shows "fst (analyze_protocol_endpoint loads create id_now entry_now upload_filename
               original_filename text srv)
           = Inl (HTTPException 500 (PStr (''Analysis failed: '' @ str_exn e)))"
proof -
  obtain res srv1 where a: "analyze_protocol loads create text original_filename srv = (res, srv1)"
    by (cases "analyze_protocol loads create text original_filename srv")
  with analyze_protocol_on_failure[OF assms, of loads "text" original_filename srv]
  have "res = analysis_failed e" by simp
  with a show ?thesis
    by (simp add: analyze_protocol_endpoint_def analysis_failed_def)
qed

lemma quick_check_on_failure:
  assumes "\<forall>req. create req = Inl e"
  shows "fst (quick_check create srv) = False"
  using assms by (simp add: quick_check_def Let_def)

lemma strftime_id_second_granularity:
  "strftime_id (t\<lparr>microsecond := us\<rparr>) = strftime_id t"
  "strftime_upload (t\<lparr>microsecond := us\<rparr>) = strftime_upload t"
  by (simp_all add: strftime_id_def strftime_upload_def date_digits_def time_digits_def)

lemma analysis_id_collision:
  "safe_filename (t\<lparr>microsecond := u1\<rparr>) fname @ ''_'' @ strftime_id (t\<lparr>microsecond := u2\<rparr>)
     = safe_filename (t\<lparr>microsecond := u3\<rparr>) fname @ ''_'' @ strftime_id (t\<lparr>microsecond := u4\<rparr>)"
  by (simp add: safe_filename_def strftime_id_second_granularity)

section \<open>A concrete run of Analyze\<close>

lemma review_parsed:
  "parse_analysis_response json_loads review_json
     = Inr [(''summary'', PStr ''ok''), (''suggestions'', PList []), (''total_issues'', PInt 0)]"
  by code_simp

lemma analyze_protocol_reviewing:
  "fst (analyze_protocol json_loads reviewing_create protocol_text fname srv)
     = [(''summary'', PStr ''ok''), (''suggestions'', PList []), (''total_issues'', PInt 0),
        (''metadata'',
         PDict [(''filename'', PStr fname),
                (''model_used'', PStr ''claude-sonnet-4-20250514''),
                (''protocol_length'', PInt (int (length protocol_text))),
                (''tokens_used'', PInt 15)])]"
  "analysis_cache (snd (analyze_protocol json_loads reviewing_create protocol_text fname srv))
     = analysis_cache srv"
  by (simp_all add: analyze_protocol_def reviewing_create_def first_text_def review_parsed Let_def
      ANTHROPIC_MODEL_def)

lemma reading_formats:
  "safe_filename (reading us) ''pcr.pdf'' = ''20250102_030405_pcr.pdf''"
  "strftime_id (reading us) = ''20250102030405''"
proof -
  have r: "reading us = (reading 0)\<lparr>microsecond := us\<rparr>" by (simp add: reading_def)
  have a: "strftime_upload (reading 0) = ''20250102_030405''" by code_simp
  have b: "strftime_id (reading 0) = ''20250102030405''" by code_simp
  show "safe_filename (reading us) ''pcr.pdf'' = ''20250102_030405_pcr.pdf''"
    unfolding r safe_filename_def strftime_id_second_granularity a by simp
  show "strftime_id (reading us) = ''20250102030405''"
    unfolding r strftime_id_second_granularity b by (rule refl)
qed

lemma analyze_endpoint_reviewing:
  "fst (analyze_protocol_endpoint json_loads reviewing_create (reading a) (reading b)
          (safe_filename (reading c) ''pcr.pdf'') ''pcr.pdf'' protocol_text srv)
     = Inr [(''success'', PBool True),
            (''analysis_id'', PStr ''20250102_030405_pcr.pdf_20250102030405''),
            (''filename'', PStr ''pcr.pdf''), (''summary'', PStr ''ok''),
            (''overall_score'', PStr ''N/A''), (''total_issues'', PInt 0),
            (''suggestions'', PList []),
            (''metadata'',
             PDict [(''filename'', PStr ''pcr.pdf''),
                    (''model_used'', PStr ''claude-sonnet-4-20250514''),
                    (''protocol_length'', PInt (int (length protocol_text))),
                    (''tokens_used'', PInt 15)])]"
  "analysis_cache (snd (analyze_protocol_endpoint json_loads reviewing_create (reading a)
          (reading b) (safe_filename (reading c) ''pcr.pdf'') ''pcr.pdf'' protocol_text srv))
     = AList.update ''20250102_030405_pcr.pdf_20250102030405''
            \<lparr>cached_original_text = protocol_text,
               cached_analysis =
                 [(''summary'', PStr ''ok''), (''suggestions'', PList []),
                  (''total_issues'', PInt 0),
                  (''metadata'',
                   PDict [(''filename'', PStr ''pcr.pdf''),
                          (''model_used'', PStr ''claude-sonnet-4-20250514''),
                          (''protocol_length'', PInt (int (length protocol_text))),
                          (''tokens_used'', PInt 15)])],
               cached_filename = ''pcr.pdf'',
               cached_timestamp = isoformat (reading b)\<rparr> (analysis_cache srv)"
proof -
  obtain res srv1 where a: "analyze_protocol json_loads reviewing_create protocol_text ''pcr.pdf''
      srv = (res, srv1)"
    by (cases "analyze_protocol json_loads reviewing_create protocol_text ''pcr.pdf'' srv")
  from analyze_protocol_reviewing[of protocol_text "''pcr.pdf''" srv] a
  have r: "res = [(''summary'', PStr ''ok''), (''suggestions'', PList []), (''total_issues'', PInt 0),
        (''metadata'',
         PDict [(''filename'', PStr ''pcr.pdf''),
                (''model_used'', PStr ''claude-sonnet-4-20250514''),
                (''protocol_length'', PInt (int (length protocol_text))),
                (''tokens_used'', PInt 15)])]"
    and s: "analysis_cache srv1 = analysis_cache srv"
    by simp_all
  show "fst (analyze_protocol_endpoint json_loads reviewing_create (reading a) (reading b)
          (safe_filename (reading c) ''pcr.pdf'') ''pcr.pdf'' protocol_text srv)
     = Inr [(''success'', PBool True),
            (''analysis_id'', PStr ''20250102_030405_pcr.pdf_20250102030405''),
            (''filename'', PStr ''pcr.pdf''), (''summary'', PStr ''ok''),
            (''overall_score'', PStr ''N/A''), (''total_issues'', PInt 0),
            (''suggestions'', PList []),
            (''metadata'',
             PDict [(''filename'', PStr ''pcr.pdf''),
                    (''model_used'', PStr ''claude-sonnet-4-20250514''),
                    (''protocol_length'', PInt (int (length protocol_text))),
                    (''tokens_used'', PInt 15)])]"
    by (simp add: analyze_protocol_endpoint_def a r reading_formats Let_def)
  show "analysis_cache (snd (analyze_protocol_endpoint json_loads reviewing_create (reading a)
          (reading b) (safe_filename (reading c) ''pcr.pdf'') ''pcr.pdf'' protocol_text srv))
     = AList.update ''20250102_030405_pcr.pdf_20250102030405''
            \<lparr>cached_original_text = protocol_text,
               cached_analysis =
                 [(''summary'', PStr ''ok''), (''suggestions'', PList []),
                  (''total_issues'', PInt 0),
                  (''metadata'',
                   PDict [(''filename'', PStr ''pcr.pdf''),
                          (''model_used'', PStr ''claude-sonnet-4-20250514''),
                          (''protocol_length'', PInt (int (length protocol_text))),
                          (''tokens_used'', PInt 15)])],
               cached_filename = ''pcr.pdf'',
               cached_timestamp = isoformat (reading b)\<rparr> (analysis_cache srv)"
    by (simp add: analyze_protocol_endpoint_def a s reading_formats Let_def r)
qed

section \<open>Exceptions of the decoder other than a decode error\<close>

text \<open>
  The handler of the parser names \<^verbatim>\<open>json.JSONDecodeError\<close> only. Whatever else the decoder
  raises on the span leaves the parser as it is.
\<close>

lemma parse_other_exception_escapes:
  assumes "span_exists t"
    and "loads (py_slice t (str_find CHR ''{'' t) (str_rfind CHR ''}'' t + 1)) = Inl e"
    and "\<forall>m. e \<noteq> JSONDecodeError m"
  shows "parse_analysis_response loads t = Inl e"
  using assms by (cases e) (simp_all add: parse_unfold)

lemma slice_embedded:
  assumes "CHR ''{'' \<notin> set pre" and "CHR ''}'' \<notin> set post"
    and "js \<noteq> []" and "hd js = CHR ''{''" and "last js = CHR ''}''"
  shows "py_slice (pre @ js @ post) (str_find CHR ''{'' (pre @ js @ post))
          (str_rfind CHR ''}'' (pre @ js @ post) + 1) = js"
  using span_embedded[OF assms] by simp

lemma parse_embedded:
  assumes "CHR ''{'' \<notin> set pre" and "CHR ''}'' \<notin> set post"
    and "js \<noteq> []" and "hd js = CHR ''{''" and "last js = CHR ''}''"
  shows "parse_analysis_response loads (pre @ js @ post)
           = (case (case loads js of Inl e \<Rightarrow> Inl e | Inr analysis \<Rightarrow> fill_and_sort analysis) of
                Inl (JSONDecodeError msg) \<Rightarrow> Inr (decode_failed msg (pre @ js @ post))
              | r \<Rightarrow> r)"
proof -
  note sp = span_embedded[OF assms]
  have a: "span_exists (pre @ js @ post)" by (rule span_exists_embedded[OF assms(3-5)])
  have "py_slice (pre @ js @ post) (str_find CHR ''{'' (pre @ js @ post))
          (str_rfind CHR ''}'' (pre @ js @ post) + 1) = js"
    using sp by simp
  with a show ?thesis by (simp add: parse_unfold)
qed

text \<open>
  The parser on two texts it degrades on: one without a span, and one whose span the
  decoder refuses with a decode error.
\<close>

lemma parse_degrades_on_concrete_texts:
  "parse_analysis_response json_loads ''} no object {''
     = Inr [(''summary'', PStr ''Analysis completed but response format was unexpected''),
            (''suggestions'', PList []),
            (''total_issues'', PInt 0),
            (''raw_response'', PStr ''} no object {'')]"
  "parse_analysis_response json_loads ''Reply: {oops} end''
     = Inr [(''error'', PBool True),
            (''message'', PStr ''Could not parse analysis response: Expecting property name enclosed in double quotes: line 1 column 2 (char 1)''),
            (''suggestions'', PList []),
            (''raw_response'', PStr ''Reply: {oops} end'')]"
  by code_simp+

text \<open>
  An integer literal of 4301 digits: the decoder raises a ValueError on it.
\<close>

lemma takeWhile_digits_replicate:
  "takeWhile is_digit (replicate n (CHR ''1'') @ ''}'') = replicate n (CHR ''1'')"
  by (induction n) (simp_all add: is_digit_def)

lemma scan_number_long:
  assumes "int_max_str_digits < n"
  shows "scan_number doc (replicate n (CHR ''1'') @ ''}'')
           = Inl (ValueError
               (''Exceeds the limit (4300 digits) for integer string conversion: value has ''
                  @ digits n
                  @ '' digits; use sys.set_int_max_str_digits() to increase the limit''))"
proof -
  from assms obtain k where n: "n = Suc k" by (cases n) auto
  have h: "hd (replicate n (CHR ''1'') @ ''}'') = CHR ''1''" by (simp add: n)
  have ne: "replicate n (CHR ''1'') @ ''}'' \<noteq> []" by simp
  show ?thesis
    unfolding scan_number_def Let_def
    using assms by (simp add: h takeWhile_digits_replicate is_digit_def)
qed

lemma scan_once_digit:
  "scan_once doc (Suc k) d (CHR ''1'' # rest) = scan_number doc (CHR ''1'' # rest)"
  by simp

lemma scan_once_long_object:
  assumes "scan_number doc (CHR ''1'' # rest) = Inl e"
  shows "scan_once doc (Suc (Suc (Suc k))) 0 (''{'' @ [CHR 0x22] @ ''total_issues'' @ [CHR 0x22] @ '': '' @ CHR ''1'' # rest) = Inl e"
  using assms by (simp add: skip_ws_def is_ws_def recursion_limit_def)

lemma long_integer_shape:
  "long_integer_json
     = ''{'' @ [CHR 0x22] @ ''total_issues'' @ [CHR 0x22] @ '': ''
         @ CHR ''1'' # (replicate 4300 (CHR ''1'') @ ''}'')"
proof -
  have "replicate 4301 (CHR ''1'') = CHR ''1'' # replicate 4300 (CHR ''1'')"
    using replicate_Suc[of 4300 "CHR ''1''"] by simp
  then show ?thesis by (simp add: long_integer_json_def)
qed

lemma long_integer_raises:
  "json_loads long_integer_json
     = Inl (ValueError
         ''Exceeds the limit (4300 digits) for integer string conversion: value has 4301 digits; use sys.set_int_max_str_digits() to increase the limit'')"
proof -
  have d: "digits 4301 = ''4301''" by code_simp
  have "scan_number long_integer_json (replicate 4301 (CHR ''1'') @ ''}'')
      = Inl (ValueError
          (''Exceeds the limit (4300 digits) for integer string conversion: value has ''
             @ digits 4301
             @ '' digits; use sys.set_int_max_str_digits() to increase the limit''))"
    by (rule scan_number_long) (simp add: int_max_str_digits_def)
  moreover have "replicate 4301 (CHR ''1'') = CHR ''1'' # replicate 4300 (CHR ''1'')"
    using replicate_Suc[of 4300 "CHR ''1''"] by simp
  ultimately have n: "scan_number long_integer_json (CHR ''1'' # (replicate 4300 (CHR ''1'') @ ''}''))
      = Inl (ValueError
          ''Exceeds the limit (4300 digits) for integer string conversion: value has 4301 digits; use sys.set_int_max_str_digits() to increase the limit'')"
    unfolding d by (simp del: digits.simps)
  have "long_integer_json \<noteq> []" by (subst long_integer_shape) simp
  then have "0 < length long_integer_json" by simp
  then have k: "2 * length long_integer_json + 2
      = Suc (Suc (Suc (2 * length long_integer_json - 1)))"
    by linarith
  have "skip_ws (''{'' @ [CHR 0x22] @ ''total_issues'' @ [CHR 0x22] @ '': ''
         @ CHR ''1'' # (replicate 4300 (CHR ''1'') @ ''}''))
      = ''{'' @ [CHR 0x22] @ ''total_issues'' @ [CHR 0x22] @ '': ''
         @ CHR ''1'' # (replicate 4300 (CHR ''1'') @ ''}'')"
    by (simp add: skip_ws_def is_ws_def)
  then have s: "skip_ws long_integer_json = long_integer_json"
    by (simp only: long_integer_shape[symmetric])
  have "scan_once long_integer_json (Suc (Suc (Suc (2 * length long_integer_json - 1)))) 0
          (''{'' @ [CHR 0x22] @ ''total_issues'' @ [CHR 0x22] @ '': ''
             @ CHR ''1'' # (replicate 4300 (CHR ''1'') @ ''}''))
      = Inl (ValueError
          ''Exceeds the limit (4300 digits) for integer string conversion: value has 4301 digits; use sys.set_int_max_str_digits() to increase the limit'')"
    by (rule scan_once_long_object[OF n])
  then have "scan_once long_integer_json (Suc (Suc (Suc (2 * length long_integer_json - 1)))) 0
          long_integer_json
      = Inl (ValueError
          ''Exceeds the limit (4300 digits) for integer string conversion: value has 4301 digits; use sys.set_int_max_str_digits() to increase the limit'')"
    by (simp only: long_integer_shape[symmetric])
  then show ?thesis
    unfolding json_loads_def k s by simp
qed

section \<open>Claims about the response parser\<close>

text \<open>
  C8. A span that exists and fails to decode does not always give the result with the
  error flag. In the text below the span is an object whose only value is an integer
  of 4301 digits; the decoder refuses it with a ValueError, which the handler for
  \<^verbatim>\<open>json.JSONDecodeError\<close> does not catch, and the parser raises it.
\<close>

theorem long_integer_escapes_the_handler:
  "span_exists (''Count: '' @ long_integer_json @ '' end'')
   \<and> py_slice (''Count: '' @ long_integer_json @ '' end'')
         (str_find CHR ''{'' (''Count: '' @ long_integer_json @ '' end''))
         (str_rfind CHR ''}'' (''Count: '' @ long_integer_json @ '' end'') + 1)
       = long_integer_json
   \<and> json_loads long_integer_json
       = Inl (ValueError
           ''Exceeds the limit (4300 digits) for integer string conversion: value has 4301 digits; use sys.set_int_max_str_digits() to increase the limit'')
   \<and> parse_analysis_response json_loads (''Count: '' @ long_integer_json @ '' end'')
       = Inl (ValueError
           ''Exceeds the limit (4300 digits) for integer string conversion: value has 4301 digits; use sys.set_int_max_str_digits() to increase the limit'')"
proof -
  have ne: "long_integer_json \<noteq> []" by (subst long_integer_shape) simp
  have h: "hd long_integer_json = CHR ''{''" by (subst long_integer_shape) simp
  have l: "last long_integer_json = CHR ''}''" by (simp add: long_integer_json_def)
  have a: "CHR ''{'' \<notin> set ''Count: ''" by simp
  have b: "CHR ''}'' \<notin> set '' end''" by simp
  have s: "span_exists (''Count: '' @ long_integer_json @ '' end'')"
    by (rule span_exists_embedded[OF ne h l])
  have sl: "py_slice (''Count: '' @ long_integer_json @ '' end'')
         (str_find CHR ''{'' (''Count: '' @ long_integer_json @ '' end''))
         (str_rfind CHR ''}'' (''Count: '' @ long_integer_json @ '' end'') + 1)
       = long_integer_json"
    by (rule slice_embedded[OF a b ne h l])
  have p: "parse_analysis_response json_loads (''Count: '' @ long_integer_json @ '' end'')
       = Inl (ValueError
           ''Exceeds the limit (4300 digits) for integer string conversion: value has 4301 digits; use sys.set_int_max_str_digits() to increase the limit'')"
    by (subst parse_embedded[OF a b ne h l]) (simp add: long_integer_raises)
  show ?thesis by (intro conjI s sl long_integer_raises p)
qed

text \<open>
  C10. Whatever object the span decodes to, the parser validates no field value. When
  the object is well shaped a result is returned, and every result the parser returns
  holds each field of the object other than the suggestions with its value unchanged,
  holds the same suggestions (each one unchanged, none removed, none added), has the
  three defaults where the object lacked the field (no suggestions, the placeholder
  summary, the number of suggestions), and has no key beyond the object's and these
  three.
\<close>

theorem parser_passes_values_through:
  assumes "span_exists t"
    and "loads (py_slice t (str_find CHR ''{'' t) (str_rfind CHR ''}'' t + 1)) = Inr (PDict d)"
  shows "(well_shaped d \<longrightarrow> (\<exists>r. parse_analysis_response loads t = Inr r))
       \<and> (\<forall>r. parse_analysis_response loads t = Inr r \<longrightarrow>
            (\<forall>k v. k \<noteq> ''suggestions'' \<and> map_of d k = Some v \<longrightarrow> map_of r k = Some v)
          \<and> (\<exists>ys. map_of r ''suggestions'' = Some (PList ys) \<and> mset ys = mset (suggestions_of d))
          \<and> (map_of d ''suggestions'' = None \<longrightarrow> map_of r ''suggestions'' = Some (PList []))
          \<and> (map_of d ''summary'' = None \<longrightarrow>
               map_of r ''summary'' = Some (PStr ''Analysis completed''))
          \<and> (map_of d ''total_issues'' = None \<longrightarrow>
               map_of r ''total_issues'' = Some (PInt (int (length (suggestions_of d)))))
          \<and> fst ` set r = fst ` set d \<union> {''suggestions'', ''summary'', ''total_issues''})"
proof (intro conjI allI impI)
  assume "well_shaped d"
  with parse_well_shaped[of t loads d] assms
  show "\<exists>r. parse_analysis_response loads t = Inr r" by blast
next
  fix r
  assume r: "parse_analysis_response loads t = Inr r"
  then have "well_shaped d" using parse_returns_iff_well_shaped[of t loads d] assms by blast
  with parse_well_shaped[of t loads d] assms r have m: "map_of r = expected_fields d" by auto
  {
    fix k v
    assume "k \<noteq> ''suggestions'' \<and> map_of d k = Some v"
    then show "map_of r k = Some v" using m by (auto simp: expected_fields_def)
  }
  show "\<exists>ys. map_of r ''suggestions'' = Some (PList ys) \<and> mset ys = mset (suggestions_of d)"
    using m by (simp add: expected_fields_def)
  {
    assume "map_of d ''suggestions'' = None"
    then show "map_of r ''suggestions'' = Some (PList [])"
      using m by (simp add: expected_fields_def suggestions_of_def)
  }
  {
    assume "map_of d ''summary'' = None"
    then show "map_of r ''summary'' = Some (PStr ''Analysis completed'')"
      using m by (simp add: expected_fields_def)
  }
  {
    assume "map_of d ''total_issues'' = None"
    then show "map_of r ''total_issues'' = Some (PInt (int (length (suggestions_of d))))"
      using m by (simp add: expected_fields_def)
  }
  show "fst ` set r = fst ` set d \<union> {''suggestions'', ''summary'', ''total_issues''}"
    by (rule keys_of_result[OF m])
qed

theorem parser_passes_values_through_witness:
  "span_exists reply_mixed
   \<and> json_loads (py_slice reply_mixed (str_find CHR ''{'' reply_mixed)
                     (str_rfind CHR ''}'' reply_mixed + 1)) = Inr (PDict mixed_object)
   \<and> well_shaped mixed_object
   \<and> (\<exists>r. parse_analysis_response json_loads reply_mixed = Inr r
         \<and> map_of r ''overall_score'' = Some (PStr ''7'')
         \<and> (\<exists>ys. map_of r ''suggestions'' = Some (PList ys)
                 \<and> mset ys = mset (suggestions_of mixed_object))
         \<and> map_of r ''summary'' = Some (PStr ''Analysis completed'')
         \<and> map_of r ''total_issues'' = Some (PInt 5)
         \<and> fst ` set r = {''overall_score'', ''suggestions'', ''summary'', ''total_issues''})"
proof -
  note th = parser_passes_values_through[of reply_mixed json_loads mixed_object,
      OF reply_mixed_span reply_mixed_decodes]
  from th[THEN conjunct1, THEN mp, OF mixed_object_well_shaped]
  obtain r where r: "parse_analysis_response json_loads reply_mixed = Inr r" by (rule exE)
  note p = th[THEN conjunct2, THEN spec, THEN mp, OF r]
  have q1: "map_of r ''overall_score'' = Some (PStr ''7'')"
    using p[THEN conjunct1, THEN spec, THEN spec, of "''overall_score''" "PStr ''7''"]
      mixed_object_fields(1) by simp
  note p2 = p[THEN conjunct2, THEN conjunct1]
  have q2: "map_of r ''summary'' = Some (PStr ''Analysis completed'')"
    using p[THEN conjunct2, THEN conjunct2, THEN conjunct2, THEN conjunct1] mixed_object_fields(2)
    by simp
  have q3: "map_of r ''total_issues'' = Some (PInt 5)"
    using p[THEN conjunct2, THEN conjunct2, THEN conjunct2, THEN conjunct2, THEN conjunct1]
      mixed_object_fields(3) mixed_object_suggestions(3)
    by simp
  have q4: "fst ` set r = {''overall_score'', ''suggestions'', ''summary'', ''total_issues''}"
    using p[THEN conjunct2, THEN conjunct2, THEN conjunct2, THEN conjunct2, THEN conjunct2]
      mixed_object_fields(5)
    by (simp add: insert_commute)
  have "\<exists>r. parse_analysis_response json_loads reply_mixed = Inr r
         \<and> map_of r ''overall_score'' = Some (PStr ''7'')
         \<and> (\<exists>ys. map_of r ''suggestions'' = Some (PList ys)
                 \<and> mset ys = mset (suggestions_of mixed_object))
         \<and> map_of r ''summary'' = Some (PStr ''Analysis completed'')
         \<and> map_of r ''total_issues'' = Some (PInt 5)
         \<and> fst ` set r = {''overall_score'', ''suggestions'', ''summary'', ''total_issues''}"
    by (rule exI[of _ r], intro conjI r q1 p2 q2 q3 q4)
  then show ?thesis
    by (intro conjI reply_mixed_span reply_mixed_decodes mixed_object_well_shaped)
qed

text \<open>
  C2, as amended. When the span decodes to an object whose suggestions are a list of
  objects the sort key accepts, the suggestions of the result are the decoded ones
  sorted stably by the rank HIGH 0, MEDIUM 1, LOW or no priority 2, anything else 3.
\<close>

theorem suggestions_sorted_by_rank:
  assumes "span_exists t"
    and "loads (py_slice t (str_find CHR ''{'' t) (str_rfind CHR ''}'' t + 1)) = Inr (PDict d)"
    and "map_of d ''suggestions'' = Some (PList xs)"
    and "list_all sortable xs"
  shows "\<exists>r ys. parse_analysis_response loads t = Inr r
           \<and> map_of r ''suggestions'' = Some (PList ys)
           \<and> stable_sorted_by rank xs ys
           \<and> mset ys = mset xs"
proof -
  have w: "well_shaped d" using assms(3,4) by (simp add: well_shaped_def)
  have s: "suggestions_of d = xs" using assms(3) by (simp add: suggestions_of_def)
  from parse_well_shaped[of t loads d] assms(1,2) w
  obtain r where r: "parse_analysis_response loads t = Inr r" "map_of r = expected_fields d"
    by blast
  have "map_of r ''suggestions'' = Some (PList (sort_key rank xs))"
    using r(2) s by (simp add: expected_fields_def)
  moreover have "stable_sorted_by rank xs (sort_key rank xs)" by (rule sort_key_stable_sorted)
  moreover have "mset (sort_key rank xs) = mset xs" by simp
  ultimately show ?thesis using r(1) by blast
qed

theorem suggestions_sorted_by_rank_witness:
  "span_exists reply_mixed
   \<and> json_loads (py_slice reply_mixed (str_find CHR ''{'' reply_mixed)
                     (str_rfind CHR ''}'' reply_mixed + 1)) = Inr (PDict mixed_object)
   \<and> map_of mixed_object ''suggestions'' = Some (PList (suggestions_of mixed_object))
   \<and> list_all sortable (suggestions_of mixed_object)
   \<and> (\<exists>r ys. parse_analysis_response json_loads reply_mixed = Inr r
         \<and> map_of r ''suggestions'' = Some (PList ys)
         \<and> stable_sorted_by rank (suggestions_of mixed_object) ys
         \<and> mset ys = mset (suggestions_of mixed_object))"
  by (intro conjI reply_mixed_span reply_mixed_decodes mixed_object_suggestions(1,2)
      suggestions_sorted_by_rank[of reply_mixed json_loads mixed_object
        "suggestions_of mixed_object",
        OF reply_mixed_span reply_mixed_decodes mixed_object_suggestions(1,2)])

text \<open>
  C2 as stated fails: with the rank that puts a missing priority at 3, the suggestion
  without a priority would stay behind the one whose priority is unknown; the parser
  moves it in front.
\<close>

theorem missing_priority_counterexample:
  "json_loads reply_unranked
     = Inr (PDict [(''suggestions'', PList [PDict [(''priority'', PStr ''URGENT'')], PDict []])])
   \<and> parse_analysis_response json_loads reply_unranked
       = Inr [(''suggestions'', PList [PDict [], PDict [(''priority'', PStr ''URGENT'')]]),
              (''summary'', PStr ''Analysis completed''),
              (''total_issues'', PInt 2)]
   \<and> \<not> stable_sorted_by claimed_rank
         [PDict [(''priority'', PStr ''URGENT'')], PDict []]
         [PDict [], PDict [(''priority'', PStr ''URGENT'')]]"
proof -
  have a: "json_loads reply_unranked
     = Inr (PDict [(''suggestions'', PList [PDict [(''priority'', PStr ''URGENT'')], PDict []])])"
    by code_simp
  have b: "parse_analysis_response json_loads reply_unranked
       = Inr [(''suggestions'', PList [PDict [], PDict [(''priority'', PStr ''URGENT'')]]),
              (''summary'', PStr ''Analysis completed''),
              (''total_issues'', PInt 2)]"
    by code_simp
  have c: "\<not> stable_sorted_by claimed_rank
         [PDict [(''priority'', PStr ''URGENT'')], PDict []]
         [PDict [], PDict [(''priority'', PStr ''URGENT'')]]"
  proof
    assume "stable_sorted_by claimed_rank
         [PDict [(''priority'', PStr ''URGENT'')], PDict []]
         [PDict [], PDict [(''priority'', PStr ''URGENT'')]]"
    then have "filter (\<lambda>x. claimed_rank x = 3) [PDict [], PDict [(''priority'', PStr ''URGENT'')]]
        = filter (\<lambda>x. claimed_rank x = 3) [PDict [(''priority'', PStr ''URGENT'')], PDict []]"
      unfolding stable_sorted_by_def by blast
    then show False by simp
  qed
  show ?thesis by (intro conjI a b c)
qed

text \<open>
  C6, as amended. Take a text that starts with an opening brace, ends with a closing
  brace and decodes to an object that has no error entry and whose suggestions, if it
  has any, are a list of objects, the priority of each of which, if it has one, is not
  a list or an object (the sort key looks the priority up in a dictionary, and a list
  or an object cannot be looked up). Such a text is recovered from between any leading
  characters that hold no opening brace and any trailing characters that hold no
  closing brace: the parser returns a result with no error entry, holding the object's
  fields.
\<close>

theorem embedded_object_recovered:
  assumes "CHR ''{'' \<notin> set pre" and "CHR ''}'' \<notin> set post"
    and "js \<noteq> []" and "hd js = CHR ''{''" and "last js = CHR ''}''"
    and "loads js = Inr (PDict d)"
    and "well_shaped d" and "map_of d ''error'' = None"
  shows "\<exists>r. parse_analysis_response loads (pre @ js @ post) = Inr r
           \<and> map_of r ''error'' = None
           \<and> map_of r = expected_fields d"
proof -
  note sp = span_embedded[OF assms(1-5)]
  have a: "span_exists (pre @ js @ post)" by (rule span_exists_embedded[OF assms(3-5)])
  have "py_slice (pre @ js @ post) (str_find CHR ''{'' (pre @ js @ post))
          (str_rfind CHR ''}'' (pre @ js @ post) + 1) = js"
    using sp by simp
  then have b: "loads (py_slice (pre @ js @ post) (str_find CHR ''{'' (pre @ js @ post))
          (str_rfind CHR ''}'' (pre @ js @ post) + 1)) = Inr (PDict d)"
    using assms(6) by simp
  from parse_well_shaped[of "pre @ js @ post" loads d] a b assms(7)
  obtain r where r: "parse_analysis_response loads (pre @ js @ post) = Inr r"
      "map_of r = expected_fields d"
    by blast
  have "map_of r ''error'' = None" using r(2) assms(8) by (simp add: expected_fields_def)
  with r show ?thesis by blast
qed

theorem embedded_object_recovered_witness:
  "CHR ''{'' \<notin> set ''Here is the review: '' \<and> CHR ''}'' \<notin> set '' Done.''
   \<and> mixed_json \<noteq> [] \<and> hd mixed_json = CHR ''{'' \<and> last mixed_json = CHR ''}''
   \<and> json_loads mixed_json = Inr (PDict mixed_object)
   \<and> well_shaped mixed_object \<and> map_of mixed_object ''error'' = None
   \<and> (\<exists>r. parse_analysis_response json_loads (''Here is the review: '' @ mixed_json @ '' Done.'') = Inr r
         \<and> map_of r ''error'' = None
         \<and> map_of r = expected_fields mixed_object)"
proof -
  have a: "CHR ''{'' \<notin> set ''Here is the review: ''" by simp
  have b: "CHR ''}'' \<notin> set '' Done.''" by simp
  have c: "mixed_json \<noteq> []" by code_simp
  have d: "hd mixed_json = CHR ''{''" by code_simp
  have e: "last mixed_json = CHR ''}''" by code_simp
  note th = embedded_object_recovered[of "''Here is the review: ''" "'' Done.''" mixed_json
      json_loads mixed_object,
      OF a b c d e mixed_json_decodes mixed_object_well_shaped mixed_object_fields(4)]
  show ?thesis
    by (intro conjI a b c d e mixed_json_decodes mixed_object_well_shaped mixed_object_fields(4) th)
qed

text \<open>
  C6 as stated fails: leading prose that itself holds a brace widens the span to
  \<^verbatim>\<open>{draft}: {"summary": "ok"}\<close>, the decoder refuses it at its second character, and
  the result carries the error flag.
\<close>

theorem braces_in_prose_counterexample:
  "json_loads summary_json = Inr (PDict [(''summary'', PStr ''ok'')])
   \<and> parse_analysis_response json_loads (''See {draft}: '' @ summary_json @ '' Thanks.'')
       = Inr [(''error'', PBool True),
              (''message'', PStr ''Could not parse analysis response: Expecting property name enclosed in double quotes: line 1 column 2 (char 1)''),
              (''suggestions'', PList []),
              (''raw_response'', PStr (''See {draft}: '' @ summary_json @ '' Thanks.''))]"
  by code_simp

text \<open>
  C1. The parser does raise: an object whose suggestions are a number has no length,
  one whose suggestions are a string has no \<^verbatim>\<open>sort\<close>, and a number among the suggestions
  has no \<^verbatim>\<open>get\<close>. None of these is a decode error, so the handler does not catch them.
\<close>

theorem parse_raises_on_malformed_suggestions:
  "parse_analysis_response json_loads reply_number
     = Inl (TypeError (''object of type '' @ [CHR 0x27] @ ''int'' @ [CHR 0x27] @ '' has no len()''))
   \<and> parse_analysis_response json_loads reply_word
     = Inl (AttributeError ([CHR 0x27] @ ''str'' @ [CHR 0x27] @ '' object has no attribute ''
              @ [CHR 0x27] @ ''sort'' @ [CHR 0x27]))
   \<and> parse_analysis_response json_loads reply_scalars
     = Inl (AttributeError ([CHR 0x27] @ ''int'' @ [CHR 0x27] @ '' object has no attribute ''
              @ [CHR 0x27] @ ''get'' @ [CHR 0x27]))"
  by code_simp

section \<open>Claims about the preview\<close>

text \<open>
  C9, as amended. The preview is the text itself when the text is no longer than
  \<^verbatim>\<open>max_chars\<close>; otherwise, for a \<^verbatim>\<open>max_chars\<close> that is not negative, it is the first
  \<^verbatim>\<open>max_chars\<close> characters followed by three dots.
\<close>

theorem preview_text_nonneg:
  "(int (length text) \<le> max_chars \<longrightarrow> preview_text text max_chars = text)
   \<and> (0 \<le> max_chars \<and> max_chars < int (length text) \<longrightarrow>
        preview_text text max_chars = take (nat max_chars) text @ ''...'')"
  by (simp add: preview_text_def py_slice_def Let_def min_def)

theorem preview_text_nonneg_witness:
  "int (length ''abcdef'') \<le> 10 \<and> preview_text ''abcdef'' 10 = ''abcdef''
   \<and> (0::int) \<le> 3 \<and> 3 < int (length ''abcdef'') \<and> preview_text ''abcdef'' 3 = ''abc...''"
  using preview_text_nonneg[of "''abcdef''" 10] preview_text_nonneg[of "''abcdef''" 3]
  by simp

text \<open>
  C9 as stated fails for a negative \<^verbatim>\<open>max_chars\<close>: the slice then counts from the end,
  and the preview of a three-letter text is five characters long.
\<close>

theorem preview_text_negative_counterexample:
  "preview_text ''abc'' (- 1) = ''ab...''
   \<and> preview_text ''abc'' (- 1) \<noteq> take (nat (- 1)) ''abc'' @ ''...''"
  by (simp add: preview_text_def py_slice_def Let_def)

section \<open>Claims about the endpoints\<close>

text \<open>
  C3. The comprehension tests the upper bound only. With two cached suggestions the
  index \<open>-1\<close> selects the last one, which is applied and counted, and the index \<open>-3\<close>
  raises an IndexError that no handler catches.
\<close>

theorem negative_index_selects_a_suggestion:
  "select_accepted (PList demo_suggestions) [- 1]
     = Inr [PDict [(''priority'', PStr ''LOW''), (''location'', PStr ''Step 2''),
                   (''suggestion'', PStr ''State the volume'')]]
   \<and> fst (improve_with rewriting_create [- 1])
     = Inr [(''success'', PBool True),
            (''improved_protocol'', PStr ''1. Mix with gloves. 2. Run.''),
            (''output_filename'', PStr ''improved_pcr.pdf_20250102_030405.txt''),
            (''suggestions_applied'', PInt 1),
            (''message'', PStr ''Protocol improved successfully'')]
   \<and> fst (improve_with rewriting_create [- 3])
     = Inl (Unhandled (IndexError ''list index out of range''))"
proof -
  have a: "select_accepted (PList demo_suggestions) [- 1]
     = Inr [PDict [(''priority'', PStr ''LOW''), (''location'', PStr ''Step 2''),
                   (''suggestion'', PStr ''State the volume'')]]"
    by code_simp
  have b: "fst (improve_with rewriting_create [- 1])
     = Inr [(''success'', PBool True),
            (''improved_protocol'', PStr ''1. Mix with gloves. 2. Run.''),
            (''output_filename'', PStr ''improved_pcr.pdf_20250102_030405.txt''),
            (''suggestions_applied'', PInt 1),
            (''message'', PStr ''Protocol improved successfully'')]"
    by code_simp
  have c: "fst (improve_with rewriting_create [- 3])
     = Inl (Unhandled (IndexError ''list index out of range''))"
    by code_simp
  show ?thesis by (intro conjI a b c)
qed

text \<open>
  C7. With two cached suggestions and the accepted indices \<open>[-1]\<close>, no index lies in
  the range from 0; yet the endpoint does not answer with the original text: it sends
  one request to the model.
\<close>

theorem negative_index_reaches_the_model:
  "filter (\<lambda>i. 0 \<le> i \<and> i < int (length demo_suggestions)) [- 1] = []
   \<and> fst (improve_with rewriting_create [- 1]) \<noteq> Inr (nothing_accepted ''1. Mix. 2. Run.'')
   \<and> sent demo_server = []
   \<and> map req_prompt (sent (snd (improve_with rewriting_create [- 1])))
       = [improvement_prompt ''- Step 2: State the volume'' ''1. Mix. 2. Run.'']"
proof -
  have a: "filter (\<lambda>i. 0 \<le> i \<and> i < int (length demo_suggestions)) [- 1] = []"
    by simp
  have b: "fst (improve_with rewriting_create [- 1]) \<noteq> Inr (nothing_accepted ''1. Mix. 2. Run.'')"
    by code_simp
  have c: "sent demo_server = []"
    by (simp add: demo_server_def)
  have d: "map req_prompt (sent (snd (improve_with rewriting_create [- 1])))
       = [improvement_prompt ''- Step 2: State the volume'' ''1. Mix. 2. Run.'']"
    by code_simp
  show ?thesis by (intro conjI a b c d)
qed

text \<open>
  C4. When the call to the model fails during Improve, the analyzer prints the
  exception on the server's console and returns the original text, and the endpoint
  answers as for a success: the original text as the improved protocol, one suggestion
  applied, and the message of a successful improvement.
\<close>

theorem improve_hides_model_failure:
  "fst (improve_with failing_create [0])
     = Inr [(''success'', PBool True),
            (''improved_protocol'', PStr ''1. Mix. 2. Run.''),
            (''output_filename'', PStr ''improved_pcr.pdf_20250102_030405.txt''),
            (''suggestions_applied'', PInt 1),
            (''message'', PStr ''Protocol improved successfully'')]
   \<and> printed (snd (improve_with failing_create [0]))
     = [''Error generating improved protocol: Connection error.'']
   \<and> outputs (snd (improve_with failing_create [0]))
     = [(''improved_pcr.pdf_20250102_030405.txt'', ''1. Mix. 2. Run.'')]"
proof -
  have a: "fst (improve_with failing_create [0])
     = Inr [(''success'', PBool True),
            (''improved_protocol'', PStr ''1. Mix. 2. Run.''),
            (''output_filename'', PStr ''improved_pcr.pdf_20250102_030405.txt''),
            (''suggestions_applied'', PInt 1),
            (''message'', PStr ''Protocol improved successfully'')]"
    by code_simp
  have b: "printed (snd (improve_with failing_create [0]))
     = [''Error generating improved protocol: Connection error.'']"
    by code_simp
  have c: "outputs (snd (improve_with failing_create [0]))
     = [(''improved_pcr.pdf_20250102_030405.txt'', ''1. Mix. 2. Run.'')]"
    by code_simp
  show ?thesis by (intro conjI a b c)
qed

text \<open>
  C5. Two analyses of two documents uploaded under the same file name, with every
  clock reading inside one second, are given the same identifier; the second entry
  replaces the first in the cache.
\<close>

theorem same_second_same_analysis_id:
  "fst first_analysis
     = Inr [(''success'', PBool True),
            (''analysis_id'', PStr ''20250102_030405_pcr.pdf_20250102030405''),
            (''filename'', PStr ''pcr.pdf''), (''summary'', PStr ''ok''),
            (''overall_score'', PStr ''N/A''), (''total_issues'', PInt 0),
            (''suggestions'', PList []),
            (''metadata'',
             PDict [(''filename'', PStr ''pcr.pdf''),
                    (''model_used'', PStr ''claude-sonnet-4-20250514''),
                    (''protocol_length'', PInt 7), (''tokens_used'', PInt 15)])]
   \<and> fst second_analysis
     = Inr [(''success'', PBool True),
            (''analysis_id'', PStr ''20250102_030405_pcr.pdf_20250102030405''),
            (''filename'', PStr ''pcr.pdf''), (''summary'', PStr ''ok''),
            (''overall_score'', PStr ''N/A''), (''total_issues'', PInt 0),
            (''suggestions'', PList []),
            (''metadata'',
             PDict [(''filename'', PStr ''pcr.pdf''),
                    (''model_used'', PStr ''claude-sonnet-4-20250514''),
                    (''protocol_length'', PInt 8), (''tokens_used'', PInt 15)])]
   \<and> map (\<lambda>(k, e). (k, cached_original_text e)) (analysis_cache (snd first_analysis))
     = [(''20250102_030405_pcr.pdf_20250102030405'', ''1. Mix.'')]
   \<and> map (\<lambda>(k, e). (k, cached_original_text e)) (analysis_cache (snd second_analysis))
     = [(''20250102_030405_pcr.pdf_20250102030405'', ''1. Stir.'')]"
proof -
  note first = analyze_endpoint_reviewing[of 100000 100001 0 "''1. Mix.''" empty_server,
      folded first_analysis_def]
  note second = analyze_endpoint_reviewing[of 900000 900001 500000 "''1. Stir.''" "snd first_analysis",
      folded second_analysis_def]
  have c: "map (\<lambda>(k, e). (k, cached_original_text e)) (analysis_cache (snd first_analysis))
     = [(''20250102_030405_pcr.pdf_20250102030405'', ''1. Mix.'')]"
    unfolding first(2) by (simp add: empty_server_def)
  have d: "map (\<lambda>(k, e). (k, cached_original_text e)) (analysis_cache (snd second_analysis))
     = [(''20250102_030405_pcr.pdf_20250102030405'', ''1. Stir.'')]"
    unfolding second(2) first(2) by (simp add: empty_server_def)
  have a: "fst first_analysis
     = Inr [(''success'', PBool True),
            (''analysis_id'', PStr ''20250102_030405_pcr.pdf_20250102030405''),
            (''filename'', PStr ''pcr.pdf''), (''summary'', PStr ''ok''),
            (''overall_score'', PStr ''N/A''), (''total_issues'', PInt 0),
            (''suggestions'', PList []),
            (''metadata'',
             PDict [(''filename'', PStr ''pcr.pdf''),
                    (''model_used'', PStr ''claude-sonnet-4-20250514''),
                    (''protocol_length'', PInt 7), (''tokens_used'', PInt 15)])]"
    unfolding first(1) by simp
  have b: "fst second_analysis
     = Inr [(''success'', PBool True),
            (''analysis_id'', PStr ''20250102_030405_pcr.pdf_20250102030405''),
            (''filename'', PStr ''pcr.pdf''), (''summary'', PStr ''ok''),
            (''overall_score'', PStr ''N/A''), (''total_issues'', PInt 0),
            (''suggestions'', PList []),
            (''metadata'',
             PDict [(''filename'', PStr ''pcr.pdf''),
                    (''model_used'', PStr ''claude-sonnet-4-20250514''),
                    (''protocol_length'', PInt 8), (''tokens_used'', PInt 15)])]"
    unfolding second(1) by simp
  show ?thesis by (intro conjI a b c d)
qed

end
